theory Spec2Isabelle
  imports Main
begin

section \<open>Python strings\<close>

text \<open>
  A model of the three analyzers of the OpenAPI generator (\<open>fastapi-analyzer.py\<close>,
  \<open>flask-analyzer.py\<close>, \<open>spring-analyzer.py\<close>): the visitors over Python's syntax
  tree, the line scan of Java text, and \<open>generate_openapi\<close>. An exception is a
  value \<open>Inl e\<close> of a sum type; a function whose \<open>try\<close> catches every exception
  returns its state.

  Source text and route paths are Python \<open>str\<close> values, modelled as \<open>string\<close>
  (a list of characters). The model reads characters as ASCII: the character
  classes of the regular expressions (\<open>\w\<close>, \<open>\s\<close>) and the case conversions
  are the ASCII ones.
\<close>

definition is_word :: "char \<Rightarrow> bool" where
  \<comment> \<open>the class \<open>\w\<close>: letters, digits and the underscore\<close>
  "is_word c =
     (let n = (of_char c :: nat)
      in (48 \<le> n \<and> n \<le> 57) \<or> (65 \<le> n \<and> n \<le> 90) \<or> n = 95 \<or> (97 \<le> n \<and> n \<le> 122))"

definition is_space :: "char \<Rightarrow> bool" where
  \<comment> \<open>the class \<open>\s\<close>, and what \<open>str.strip()\<close> and \<open>str.split()\<close> treat as white space\<close>
  "is_space c = (let n = (of_char c :: nat) in (9 \<le> n \<and> n \<le> 13) \<or> (28 \<le> n \<and> n \<le> 32))"

definition is_alpha :: "char \<Rightarrow> bool" where
  "is_alpha c = (let n = (of_char c :: nat) in (65 \<le> n \<and> n \<le> 90) \<or> (97 \<le> n \<and> n \<le> 122))"

definition lower_char :: "char \<Rightarrow> char" where
  "lower_char c =
     (let n = (of_char c :: nat) in if 65 \<le> n \<and> n \<le> 90 then char_of (n + 32) else c)"

definition upper_char :: "char \<Rightarrow> char" where
  "upper_char c =
     (let n = (of_char c :: nat) in if 97 \<le> n \<and> n \<le> 122 then char_of (n - 32) else c)"

definition lower :: "string \<Rightarrow> string" where
  \<comment> \<open>\<open>s.lower()\<close>\<close>
  "lower s = map lower_char s"

definition upper :: "string \<Rightarrow> string" where
  \<comment> \<open>\<open>s.upper()\<close>\<close>
  "upper s = map upper_char s"

definition replace_char :: "char \<Rightarrow> char \<Rightarrow> string \<Rightarrow> string" where
  \<comment> \<open>\<open>s.replace(a, b)\<close> for one-character \<open>a\<close> and \<open>b\<close>\<close>
  "replace_char a b s = map (\<lambda>c. if c = a then b else c) s"

fun starts_with :: "string \<Rightarrow> string \<Rightarrow> bool" where
  \<comment> \<open>\<open>s.startswith(p)\<close>\<close>
  "starts_with s [] = True"
| "starts_with [] (p # ps) = False"
| "starts_with (c # cs) (p # ps) = (c = p \<and> starts_with cs ps)"

fun str_in :: "string \<Rightarrow> string \<Rightarrow> bool" where
  \<comment> \<open>\<open>needle in hay\<close>: \<open>needle\<close> occurs in \<open>hay\<close> as a substring\<close>
  "str_in needle [] = (needle = [])"
| "str_in needle (c # cs) = (starts_with (c # cs) needle \<or> str_in needle cs)"

fun split_on :: "char \<Rightarrow> string \<Rightarrow> string list" where
  \<comment> \<open>\<open>s.split(sep)\<close> for a one-character separator\<close>
  "split_on sep [] = [[]]"
| "split_on sep (c # cs) =
     (if c = sep then [] # split_on sep cs
      else (case split_on sep cs of [] \<Rightarrow> [[c]] | l # ls \<Rightarrow> (c # l) # ls))"

definition strip_chars :: "(char \<Rightarrow> bool) \<Rightarrow> string \<Rightarrow> string" where
  \<comment> \<open>\<open>s.strip(chars)\<close>: the characters of the class are removed at both ends\<close>
  "strip_chars P s = rev (dropWhile P (rev (dropWhile P s)))"

definition rstrip_chars :: "(char \<Rightarrow> bool) \<Rightarrow> string \<Rightarrow> string" where
  \<comment> \<open>\<open>s.rstrip(chars)\<close>\<close>
  "rstrip_chars P s = rev (dropWhile P (rev s))"

definition strip :: "string \<Rightarrow> string" where
  \<comment> \<open>\<open>s.strip()\<close>\<close>
  "strip s = strip_chars is_space s"

fun join :: "string \<Rightarrow> string list \<Rightarrow> string" where
  \<comment> \<open>\<open>sep.join(xs)\<close>\<close>
  "join sep [] = []"
| "join sep [x] = x"
| "join sep (x # y # ys) = x @ sep @ join sep (y # ys)"

definition dq :: char where
  \<comment> \<open>the double quote\<close>
  "dq = CHR 0x22"

definition sq :: char where
  \<comment> \<open>the single quote\<close>
  "sq = CHR 0x27"

definition nl :: char where
  \<comment> \<open>the line feed\<close>
  "nl = CHR 0x0A"

section \<open>Python values, errors and dictionaries\<close>

text \<open>
  The value of an \<open>ast.Constant\<close> node: a string, an integer, a boolean or
  \<open>None\<close>. (Floating-point, complex and bytes literals and \<open>...\<close> are left out
  of the model.) The analyzers copy such values into the endpoints without
  looking at their type, so the fields that receive them have this type.
\<close>

datatype pyconst = CStr string | CInt int | CBool bool | CNone

fun truthy :: "pyconst \<Rightarrow> bool" where
  \<comment> \<open>the truth value Python gives a constant in \<open>x or y\<close> and \<open>if x\<close>\<close>
  "truthy (CStr s) = (s \<noteq> [])"
| "truthy (CInt i) = (i \<noteq> 0)"
| "truthy (CBool b) = b"
| "truthy CNone = False"

datatype py_error = SyntaxError | AttributeError | TypeError | OSError

text \<open>
  A Python \<open>dict\<close> keeps its keys in insertion order: an association list
  without repeated keys. \<open>d[k] = v\<close> replaces the value of a key that is there
  and appends a key that is not.
\<close>

fun dict_set :: "('k \<times> 'v) list \<Rightarrow> 'k \<Rightarrow> 'v \<Rightarrow> ('k \<times> 'v) list" where
  "dict_set [] k v = [(k, v)]"
| "dict_set ((k', v') # d) k v = (if k' = k then (k, v) # d else (k', v') # dict_set d k v)"

definition dict_get :: "('k \<times> 'v) list \<Rightarrow> 'k \<Rightarrow> 'v option" where
  "dict_get d k = map_of d k"

section \<open>The Python syntax tree\<close>

text \<open>
  The nodes of Python's \<open>ast\<close> module that the two decorator-idiom analyzers
  inspect. A \<open>Call\<close> carries its \<open>func\<close>, \<open>args\<close>, \<open>keywords\<close> (each a pair of
  \<open>keyword.arg\<close>, which is \<open>None\<close> for \<open>**kw\<close>, and \<open>keyword.value\<close>) and its
  \<open>lineno\<close>. Every other kind of expression is \<open>OtherExpr\<close>.
\<close>

datatype expr =
    Constant pyconst
  | Name string
  | Attribute expr string
  | Call expr "expr list" "(string option \<times> expr) list" nat
  | ListE "expr list"
  | Subscript expr expr
  | OtherExpr

type_synonym keyword = "string option \<times> expr"

type_synonym call = "expr \<times> expr list \<times> keyword list \<times> nat"

record ast_arg =
  arg :: string
  annotation :: "expr option"

text \<open>
  A \<open>FunctionDef\<close> node: its name, \<open>args.args\<close>, \<open>args.defaults\<close>, the decorators, the
  return annotation and the line. Its body is the second argument of the
  constructor below.
\<close>

record fdef =
  fd_name :: string
  fd_args :: "ast_arg list"
  fd_defaults :: "expr list"
  fd_decorator_list :: "expr list"
  fd_returns :: "expr option"
  fd_lineno :: nat

text \<open>
  Statements. \<open>ClassDef\<close> carries the class name, its decorators and its body;
  \<open>Assign\<close> its targets and its value; \<open>Expr\<close> is an expression statement.
  \<open>OtherStmt\<close> is any other statement (\<open>if\<close>, \<open>for\<close>, \<open>with\<close>, \<open>try\<close>,
  \<open>async def\<close>, ...) with the statements nested in it, in the order of its
  fields, which is the order \<open>generic_visit\<close> reaches them. Expressions contain
  no statements, so a visitor that only has methods for statements does nothing
  below an expression.
\<close>

datatype stmt =
    FunctionDef fdef "stmt list"
  | ClassDef string "expr list" "stmt list"
  | Assign "expr list" expr
  | Expr expr
  | OtherStmt "stmt list"

fun is_Constant :: "expr \<Rightarrow> bool" where
  \<comment> \<open>\<open>isinstance(e, ast.Constant)\<close>\<close>
  "is_Constant (Constant c) = True"
| "is_Constant e = False"

section \<open>Flask: the placeholder pattern\<close>

text \<open>
  \<open>flask-analyzer.py\<close>, \<open>generate_openapi\<close> uses one pattern twice:
  \<^verbatim>\<open>re.findall(r'<(\w+):?(\w+)?>', path)\<close> and
  \<^verbatim>\<open>re.sub(r'<(\w+):?(\w+)?>', r'{\2}', path)\<close>.

  \<open>match_placeholder s\<close> is one match attempt of that pattern at the head of \<open>s\<close>; it
  returns the two groups and the text after the match. The greedy \<open>\w+\<close> first
  takes the whole run of word characters after \<open><\<close>. If the rest then fails,
  giving back characters of that run cannot help: the optional second group
  would take them again, and the same character would stand where \<open>>\<close> is
  required. So the attempt is decided without backtracking, and a match is
  \<open><\<close>, a run of word characters, and then either \<open>>\<close>, or \<open>:\<close>, a possibly empty
  run of word characters and \<open>>\<close>. A group that takes no part in the match is the
  empty string, both in the tuples of \<open>findall\<close> and in the expansion of \<open>\2\<close>.
\<close>

definition match_placeholder :: "string \<Rightarrow> (string \<times> string \<times> string) option" where
  "match_placeholder s =
     (case s of
        [] \<Rightarrow> None
      | c # t \<Rightarrow>
          if c \<noteq> CHR ''<'' then None
          else
            let w1 = takeWhile is_word t; r1 = dropWhile is_word t in
            if w1 = [] then None
            else
              (case r1 of
                 [] \<Rightarrow> None
               | d # r2 \<Rightarrow>
                   if d = CHR ''>'' then Some (w1, [], r2)
                   else if d = CHR '':'' then
                     (let w2 = takeWhile is_word r2; r3 = dropWhile is_word r2 in
                      case r3 of
                        [] \<Rightarrow> None
                      | e # r4 \<Rightarrow> if e = CHR ''>'' then Some (w1, w2, r4) else None)
                   else None))"

lemma dropWhile_Cons_shorter:
  "dropWhile P xs = y # ys \<Longrightarrow> length ys < length xs"
  using length_dropWhile_le [of P xs] by simp

lemma match_placeholder_shorter:
  assumes "match_placeholder s = Some (g1, g2, r)"
  shows "length r < length s"
proof -
  from assms obtain t where s: "s = CHR ''<'' # t"
    by (cases s) (auto simp: match_placeholder_def split: if_splits)
  from assms s obtain d r2 where r1: "dropWhile is_word t = d # r2"
    by (cases "dropWhile is_word t")
       (simp_all add: match_placeholder_def Let_def del: dropWhile_eq_Nil_conv split: if_splits)
  have l1: "length r2 < length t"
    using r1 by (rule dropWhile_Cons_shorter)
  show ?thesis
  proof (cases "d = CHR ''>''")
    case True
    with assms s r1 l1 show ?thesis
      by (simp add: match_placeholder_def Let_def split: if_splits)
  next
    case False
    from assms s r1 False obtain e r4 where r3: "dropWhile is_word r2 = e # r4"
      by (cases "dropWhile is_word r2")
         (simp_all add: match_placeholder_def Let_def del: dropWhile_eq_Nil_conv split: if_splits)
    have l2: "length r4 < length r2"
      using r3 by (rule dropWhile_Cons_shorter)
    from assms s r1 r3 False l1 l2 show ?thesis
      by (simp add: match_placeholder_def Let_def split: if_splits)
  qed
qed

text \<open>
  \<open>re.sub\<close> scans from left to right: where the pattern matches, the match is
  replaced by the template \<open>{\2}\<close> and the scan goes on after the match; elsewhere
  the character is copied. The pattern never matches the empty string.
\<close>

function convert_path :: "string \<Rightarrow> string" where
  "convert_path [] = []"
| "convert_path (c # t) =
     (case match_placeholder (c # t) of
        Some (g1, g2, r) \<Rightarrow> CHR ''{'' # g2 @ CHR ''}'' # convert_path r
      | None \<Rightarrow> c # convert_path t)"
  by pat_completeness auto
termination
  by (relation "measure length") (auto dest: match_placeholder_shorter)

text \<open>\<open>re.findall\<close> with two groups returns the pair of groups of every match.\<close>

function findall_placeholders :: "string \<Rightarrow> (string \<times> string) list" where
  "findall_placeholders [] = []"
| "findall_placeholders (c # t) =
     (case match_placeholder (c # t) of
        Some (g1, g2, r) \<Rightarrow> (g1, g2) # findall_placeholders r
      | None \<Rightarrow> findall_placeholders t)"
  by pat_completeness auto
termination
  by (relation "measure length") (auto dest: match_placeholder_shorter)

section \<open>FastAPI: the visitor\<close>

text \<open>
  \<open>fastapi-analyzer.py\<close>, class \<open>FastAPIVisitor\<close>. A JSON-schema dictionary has
  the key \<open>type\<close> and, when set, \<open>items\<close>, \<open>nullable\<close> and \<open>default\<close>.
\<close>

datatype schema =
  Schema (s_type: string) (s_items: "schema option") (s_nullable: bool) (s_default: "pyconst option")

definition string_schema :: schema where
  \<comment> \<open>\<open>{'type': 'string'}\<close>\<close>
  "string_schema = Schema ''string'' None False None"

definition type_map :: "(string \<times> string) list" where
  "type_map =
     [(''str'', ''string''), (''int'', ''integer''), (''float'', ''number''),
      (''bool'', ''boolean''), (''list'', ''array''), (''dict'', ''object'')]"

fun parse_type_annotation :: "expr \<Rightarrow> schema" where
  \<comment> \<open>\<open>_parse_type_annotation\<close>; \<open>annotation.slice\<close> is the subscript itself (Python 3.9 on)\<close>
  "parse_type_annotation (Name i) =
     Schema (case map_of type_map i of Some t \<Rightarrow> t | None \<Rightarrow> ''string'') None False None"
| "parse_type_annotation (Subscript v sl) =
     (case v of
        Name i \<Rightarrow>
          if i = ''List'' then Schema ''array'' (Some (parse_type_annotation sl)) False None
          else if i = ''Optional'' then
            (case parse_type_annotation sl of Schema t it n d \<Rightarrow> Schema t it True d)
          else string_schema
      | _ \<Rightarrow> string_schema)"
| "parse_type_annotation e = string_schema"

record parameter =
  p_name :: string
  p_in :: string
  p_required :: bool
  p_schema :: schema

text \<open>
  The loop over the decorators in \<open>_extract_parameters\<close>: every decorator that is
  a call whose first argument is a constant is asked whether \<open>{name}\<close> occurs in
  that constant. \<open>x in v\<close> raises \<open>TypeError\<close> when \<open>v\<close> is a number, a boolean or
  \<open>None\<close>. The result says whether some decorator made the parameter a path
  parameter.
\<close>

fun placeholder_in_decorators :: "string \<Rightarrow> expr list \<Rightarrow> py_error + bool" where
  "placeholder_in_decorators name [] = Inr False"
| "placeholder_in_decorators name (d # ds) =
     (case d of
        Call f (Constant c # as) kws ln \<Rightarrow>
          (case c of
             CStr p \<Rightarrow>
               (case placeholder_in_decorators name ds of
                  Inl e \<Rightarrow> Inl e
                | Inr b \<Rightarrow> Inr (str_in (''{'' @ name @ ''}'') p \<or> b))
           | _ \<Rightarrow> Inl TypeError)
      | _ \<Rightarrow> placeholder_in_decorators name ds)"

text \<open>
  \<open>defaults = dict(zip(node.args.args[-len(node.args.defaults):], node.args.defaults))\<close>:
  the keys of this dictionary are the \<open>ast.arg\<close> nodes themselves, and the
  lookup \<open>arg.arg in defaults\<close> is made with the argument's name, a string.
  \<open>pykey\<close> holds both kinds of object; a string never equals a node.
\<close>

datatype pykey = KStr string | KArg ast_arg

definition defaults_dict :: "fdef \<Rightarrow> (pykey \<times> expr) list" where
  "defaults_dict fd =
     (let n = length (fd_defaults fd);
          tail = (if n = 0 then fd_args fd else drop (length (fd_args fd) - n) (fd_args fd))
      in zip (map KArg tail) (fd_defaults fd))"

definition self_or_cls :: "string \<Rightarrow> bool" where
  "self_or_cls n = (n = ''self'' \<or> n = ''cls'')"

definition make_parameter :: "fdef \<Rightarrow> ast_arg \<Rightarrow> py_error + parameter" where
  \<comment> \<open>the body of the loop of \<open>_extract_parameters\<close> for one argument\<close>
  "make_parameter fd a =
     (case placeholder_in_decorators (arg a) (fd_decorator_list fd) of
        Inl e \<Rightarrow> Inl e
      | Inr in_path \<Rightarrow>
          let p0 = \<lparr>p_name = arg a,
                    p_in = (if in_path then ''path'' else ''query''),
                    p_required = in_path,
                    p_schema = string_schema\<rparr>;
              p1 = (case annotation a of
                      Some ann \<Rightarrow> p0\<lparr>p_schema := parse_type_annotation ann\<rparr>
                    | None \<Rightarrow> p0)
          in Inr
               (case map_of (defaults_dict fd) (KStr (arg a)) of
                  Some default_val \<Rightarrow>
                    (case default_val of
                       Constant c \<Rightarrow>
                         p1\<lparr>p_required := False,
                            p_schema :=
                              (case p_schema p1 of Schema t it n d \<Rightarrow> Schema t it n (Some c))\<rparr>
                     | _ \<Rightarrow> p1\<lparr>p_required := False\<rparr>)
                | None \<Rightarrow>
                    if \<not> self_or_cls (arg a) then p1\<lparr>p_required := True\<rparr> else p1))"

fun extract_parameters_loop :: "fdef \<Rightarrow> ast_arg list \<Rightarrow> py_error + parameter list" where
  "extract_parameters_loop fd [] = Inr []"
| "extract_parameters_loop fd (a # as) =
     (if self_or_cls (arg a) then extract_parameters_loop fd as
      else
        (case make_parameter fd a of
           Inl e \<Rightarrow> Inl e
         | Inr p \<Rightarrow>
             (case extract_parameters_loop fd as of
                Inl e \<Rightarrow> Inl e
              | Inr ps \<Rightarrow> Inr (p # ps))))"

definition extract_parameters :: "fdef \<Rightarrow> py_error + parameter list" where
  \<comment> \<open>\<open>_extract_parameters\<close>\<close>
  "extract_parameters fd = extract_parameters_loop fd (fd_args fd)"

record response =
  r_description :: string
  r_content_schema :: "schema option"

definition extract_responses :: "fdef \<Rightarrow> (string \<times> response) list" where
  \<comment> \<open>\<open>_extract_responses\<close>: the loop over the decorators changes nothing\<close>
  "extract_responses fd =
     [(''200'', \<lparr>r_description = ''Successful Response'',
                 r_content_schema = map_option parse_type_annotation (fd_returns fd)\<rparr>)]"

record request_body =
  rb_schema_ref :: string
  rb_required :: bool

definition extract_request_body :: "fdef \<Rightarrow> request_body option" where
  \<comment> \<open>\<open>_extract_request_body\<close>: the first argument annotated with a plain name\<close>
  "extract_request_body fd =
     (case find (\<lambda>a. (case annotation a of Some (Name i) \<Rightarrow> \<not> self_or_cls (arg a) | _ \<Rightarrow> False))
             (fd_args fd) of
        Some a \<Rightarrow>
          (case annotation a of
             Some (Name i) \<Rightarrow>
               Some \<lparr>rb_schema_ref = ''#/components/schemas/'' @ i, rb_required = True\<rparr>
           | _ \<Rightarrow> None)
      | None \<Rightarrow> None)"

definition extract_docstring :: "string \<Rightarrow> nat \<Rightarrow> pyconst" where
  \<comment> \<open>\<open>_extract_docstring(lineno)\<close>: the first of the ten lines from index \<open>lineno\<close> on
      that holds a triple quote\<close>
  "extract_docstring content lineno =
     (case find (\<lambda>l. str_in [dq, dq, dq] l \<or> str_in [sq, sq, sq] l)
             (take 10 (drop lineno (split_on nl content))) of
        Some l \<Rightarrow> CStr (strip_chars (\<lambda>c. c = sq) (strip_chars (\<lambda>c. c = dq) (strip l)))
      | None \<Rightarrow> CNone)"

definition http_verbs :: "string list" where
  "http_verbs = [''get'', ''post'', ''put'', ''delete'', ''patch'', ''options'', ''head'', ''trace'']"

fun get_route_decorator :: "expr list \<Rightarrow> call option" where
  \<comment> \<open>\<open>_get_route_decorator\<close>, over \<open>node.decorator_list\<close>\<close>
  "get_route_decorator [] = None"
| "get_route_decorator (d # ds) =
     (case d of
        Call f as kws ln \<Rightarrow>
          (case f of
             Attribute v a \<Rightarrow>
               if a \<in> set http_verbs then Some (f, as, kws, ln) else get_route_decorator ds
           | Name i \<Rightarrow>
               if i \<in> set http_verbs then Some (f, as, kws, ln) else get_route_decorator ds
           | _ \<Rightarrow> get_route_decorator ds)
      | _ \<Rightarrow> get_route_decorator ds)"

definition decorator_path :: "expr list \<Rightarrow> pyconst" where
  \<comment> \<open>the path of both \<open>_parse_route_decorator\<close>s: \<open>'/'\<close> unless there is a first
      positional argument and it is a constant\<close>
  "decorator_path as = (case as of Constant c # _ \<Rightarrow> c | _ \<Rightarrow> CStr ''/'')"

fun keyword_metadata ::
  "pyconst \<times> pyconst \<times> pyconst list \<Rightarrow> keyword list \<Rightarrow> pyconst \<times> pyconst \<times> pyconst list" where
  \<comment> \<open>the loop over \<open>decorator.keywords\<close>: summary, description and tags\<close>
  "keyword_metadata m [] = m"
| "keyword_metadata (summary, description, tags) ((k, v) # kws) =
     keyword_metadata
       (if k = Some ''summary'' then
          (case v of Constant c \<Rightarrow> (c, description, tags) | _ \<Rightarrow> (summary, description, tags))
        else if k = Some ''description'' then
          (case v of Constant c \<Rightarrow> (summary, c, tags) | _ \<Rightarrow> (summary, description, tags))
        else if k = Some ''tags'' then
          (case v of
             ListE elts \<Rightarrow>
               (summary, description,
                concat (map (\<lambda>e. case e of Constant c \<Rightarrow> [c] | _ \<Rightarrow> []) elts))
           | _ \<Rightarrow> (summary, description, tags))
        else (summary, description, tags))
       kws"

definition parse_route_decorator ::
  "string \<Rightarrow> call \<Rightarrow> string option \<times> pyconst \<times> pyconst \<times> pyconst \<times> pyconst list" where
  \<comment> \<open>\<open>_parse_route_decorator\<close>: method, path, summary, description, tags\<close>
  "parse_route_decorator content d =
     (case d of (f, as, kws, ln) \<Rightarrow>
        let method = (case f of
                        Attribute v a \<Rightarrow> Some (upper a)
                      | Name i \<Rightarrow> Some (upper i)
                      | _ \<Rightarrow> None);
            path = decorator_path as
        in (case keyword_metadata (CNone, CNone, []) kws of
              (summary, description, tags) \<Rightarrow>
                (method, path, summary,
                 (if \<not> truthy description \<and> \<not> truthy summary
                  then extract_docstring content ln else description),
                 tags)))"

record fa_endpoint =
  ep_method :: "string option"
  ep_path :: pyconst
  ep_file :: string
  ep_line :: nat
  ep_function :: string
  ep_summary :: pyconst
  ep_description :: pyconst
  ep_tags :: "pyconst list"
  ep_parameters :: "parameter list"
  ep_responses :: "(string \<times> response) list"
  ep_request_body :: "request_body option"
  ep_security :: "string list"

text \<open>
  The visitor's fields. \<open>schemas\<close> stays empty (\<open>_extract_pydantic_models\<close> is
  \<open>pass\<close>) and \<open>dependencies\<close> is never used; \<open>router_prefix\<close> is written by
  \<open>_extract_router_prefix\<close> and read nowhere.
\<close>

record fa_visitor =
  v_file_path :: string
  v_content :: string
  v_endpoints :: "fa_endpoint list"
  v_schemas :: "(string \<times> schema) list"
  v_current_class :: "string option"
  v_router_prefix :: pyconst

definition new_visitor :: "string \<Rightarrow> string \<Rightarrow> fa_visitor" where
  \<comment> \<open>\<open>FastAPIVisitor.__init__\<close>\<close>
  "new_visitor file_path content =
     \<lparr>v_file_path = file_path, v_content = content, v_endpoints = [], v_schemas = [],
      v_current_class = None, v_router_prefix = CStr []\<rparr>"

fun extract_router_prefix :: "fa_visitor \<Rightarrow> keyword list \<Rightarrow> fa_visitor" where
  \<comment> \<open>\<open>_extract_router_prefix(node)\<close>, over \<open>node.keywords\<close>\<close>
  "extract_router_prefix v [] = v"
| "extract_router_prefix v ((k, e) # kws) =
     extract_router_prefix
       (if k = Some ''prefix'' then
          (case e of Constant c \<Rightarrow> v\<lparr>v_router_prefix := c\<rparr> | _ \<Rightarrow> v)
        else v)
       kws"

text \<open>
  \<open>visit_FunctionDef\<close> up to its call of \<open>generic_visit\<close>. Inside a class,
  \<open>self._extract_router_prefix(node)\<close> is called with the \<open>FunctionDef\<close> node,
  which has no attribute \<open>keywords\<close>: \<open>AttributeError\<close>.
\<close>

definition visit_FunctionDef :: "fa_visitor \<Rightarrow> fdef \<Rightarrow> py_error + fa_visitor" where
  "visit_FunctionDef v fd =
     (case get_route_decorator (fd_decorator_list fd) of
        None \<Rightarrow> Inr v
      | Some d \<Rightarrow>
          (case parse_route_decorator (v_content v) d of
             (method, path, summary, description, tags) \<Rightarrow>
               if v_current_class v \<noteq> None then Inl AttributeError
               else
                 (case extract_parameters fd of
                    Inl e \<Rightarrow> Inl e
                  | Inr params \<Rightarrow>
                      Inr (v\<lparr>v_endpoints := v_endpoints v @
                             [\<lparr>ep_method = method, ep_path = path, ep_file = v_file_path v,
                               ep_line = fd_lineno fd, ep_function = fd_name fd,
                               ep_summary = summary, ep_description = description,
                               ep_tags = tags, ep_parameters = params,
                               ep_responses = extract_responses fd,
                               ep_request_body = extract_request_body fd,
                               ep_security = []\<rparr>]\<rparr>))))"

fun class_decorators :: "fa_visitor \<Rightarrow> expr list \<Rightarrow> fa_visitor" where
  \<comment> \<open>the loop over \<open>node.decorator_list\<close> in \<open>visit_ClassDef\<close>\<close>
  "class_decorators v [] = v"
| "class_decorators v (d # ds) =
     class_decorators
       (case d of
          Call f as kws ln \<Rightarrow>
            (case f of
               Name i \<Rightarrow> if i = ''router'' then extract_router_prefix v kws else v
             | _ \<Rightarrow> v)
        | _ \<Rightarrow> v)
       ds"

text \<open>
  \<open>visit\<close> dispatches on the statement; after \<open>visit_FunctionDef\<close> and inside
  \<open>visit_ClassDef\<close>, and for every statement without a method of its own,
  \<open>generic_visit\<close> visits the nested statements in order. An exception ends
  the visit.
\<close>

fun visit :: "fa_visitor \<Rightarrow> stmt \<Rightarrow> py_error + fa_visitor"
  and visit_body :: "fa_visitor \<Rightarrow> stmt list \<Rightarrow> py_error + fa_visitor" where
  "visit v (FunctionDef fd body) =
     (case visit_FunctionDef v fd of Inl e \<Rightarrow> Inl e | Inr v' \<Rightarrow> visit_body v' body)"
| "visit v (ClassDef name decorators body) =
     (case visit_body (class_decorators (v\<lparr>v_current_class := Some name\<rparr>) decorators) body of
        Inl e \<Rightarrow> Inl e
      | Inr v' \<Rightarrow> Inr (v'\<lparr>v_current_class := v_current_class v\<rparr>))"
| "visit v (Assign targets val) = Inr v"
| "visit v (Expr e) = Inr v"
| "visit v (OtherStmt body) = visit_body v body"
| "visit_body v [] = Inr v"
| "visit_body v (s # ss) =
     (case visit v s of Inl e \<Rightarrow> Inl e | Inr v' \<Rightarrow> visit_body v' ss)"

section \<open>FastAPI: the analyzer\<close>

text \<open>
  \<open>FastAPIAnalyzer._analyze_file\<close> reads a file, parses it with \<open>ast.parse\<close> and
  runs a fresh visitor on the tree (a \<open>Module\<close> has no visit method, so its
  body is visited statement by statement); only after the visit has returned
  are the visitor's endpoints and schemas added to the analyzer's. The
  \<open>try\<close> catches \<open>SyntaxError\<close> and every other \<open>Exception\<close> and prints a
  warning on standard error.

  A file is its path and its text, \<open>None\<close> when \<open>open\<close> or \<open>read\<close> raises.
  \<open>ast.parse\<close> is outside the repository: it is the parameter \<open>parse\<close>, which
  gives the statements of the module or the exception.
\<close>

datatype warning = CouldNotParse string | ErrorAnalyzing string

type_synonym source_file = "string \<times> string option"

type_synonym parser = "string \<Rightarrow> py_error + stmt list"

definition warning_for :: "py_error \<Rightarrow> string \<Rightarrow> warning" where
  \<comment> \<open>which of the two \<open>except\<close> clauses prints\<close>
  "warning_for e file_path =
     (if e = SyntaxError then CouldNotParse file_path else ErrorAnalyzing file_path)"

fun dict_update :: "('k \<times> 'v) list \<Rightarrow> ('k \<times> 'v) list \<Rightarrow> ('k \<times> 'v) list" where
  \<comment> \<open>\<open>d.update(other)\<close>\<close>
  "dict_update d [] = d"
| "dict_update d ((k, v) # other) = dict_update (dict_set d k v) other"

record fa_analyzer =
  a_endpoints :: "fa_endpoint list"
  a_schemas :: "(string \<times> schema) list"
  a_log :: "warning list"

definition new_analyzer :: fa_analyzer where
  "new_analyzer = \<lparr>a_endpoints = [], a_schemas = [], a_log = []\<rparr>"

definition visit_file :: "parser \<Rightarrow> source_file \<Rightarrow> py_error + fa_visitor" where
  \<comment> \<open>the statements of the \<open>try\<close> block up to the end of the visit\<close>
  "visit_file parse f =
     (case f of (file_path, rd) \<Rightarrow>
        (case rd of
           None \<Rightarrow> Inl OSError
         | Some content \<Rightarrow>
             (case parse content of
                Inl e \<Rightarrow> Inl e
              | Inr tree \<Rightarrow> visit_body (new_visitor file_path content) tree)))"

definition analyze_file :: "parser \<Rightarrow> fa_analyzer \<Rightarrow> source_file \<Rightarrow> fa_analyzer" where
  \<comment> \<open>\<open>_analyze_file\<close>\<close>
  "analyze_file parse a f =
     (case visit_file parse f of
        Inl e \<Rightarrow> a\<lparr>a_log := a_log a @ [warning_for e (fst f)]\<rparr>
      | Inr v \<Rightarrow>
          a\<lparr>a_endpoints := a_endpoints a @ v_endpoints v,
            a_schemas := dict_update (a_schemas a) (v_schemas v)\<rparr>)"

definition analyze :: "parser \<Rightarrow> source_file list \<Rightarrow> fa_analyzer" where
  \<comment> \<open>\<open>analyze\<close>, over the files \<open>_find_files\<close> lists\<close>
  "analyze parse files = foldl (analyze_file parse) new_analyzer files"

section \<open>The emitted document\<close>

text \<open>
  An operation of the document: \<open>summary\<close>, \<open>description\<close>, \<open>operationId\<close> and
  \<open>responses\<close> are always there; the other keys are set only for a non-empty
  value. \<open>paths\<close> maps a path to a dictionary from the lower-case method to the
  operation.
\<close>

record operation =
  op_summary :: pyconst
  op_description :: pyconst
  op_operationId :: string
  op_responses :: "(string \<times> response) list"
  op_parameters :: "parameter list option"
  op_requestBody :: "request_body option"
  op_tags :: "pyconst list option"
  op_security :: "string list option"

record info =
  info_title :: string
  info_version :: string
  info_description :: string

type_synonym paths = "(string \<times> (string \<times> operation) list) list"

record document =
  openapi :: string
  doc_info :: info
  doc_paths :: paths
  components_schemas :: "(string \<times> schema) list"

definition non_empty :: "'a list \<Rightarrow> 'a list option" where
  \<comment> \<open>\<open>if x: operation[key] = x\<close> for a list\<close>
  "non_empty xs = (if xs = [] then None else Some xs)"

definition set_operation :: "paths \<Rightarrow> string \<Rightarrow> string \<Rightarrow> operation \<Rightarrow> paths" where
  \<comment> \<open>\<open>if path_key not in paths: paths[path_key] = {}\<close> and then
      \<open>paths[path_key][method] = operation\<close>\<close>
  "set_operation ps path_key method op =
     (case dict_get ps path_key of
        None \<Rightarrow> dict_set ps path_key [(method, op)]
      | Some ms \<Rightarrow> dict_set ps path_key (dict_set ms method op))"

section \<open>FastAPI: \<open>generate_openapi\<close>\<close>

text \<open>
  The analyzer always sets every key of an endpoint, so \<open>endpoint.get(key)\<close> is
  the value of the field. \<open>endpoint['path'].replace\<close> and
  \<open>endpoint['method'].lower\<close> raise \<open>AttributeError\<close> when the path is not a
  string or the method is \<open>None\<close>.
\<close>

definition fa_operation :: "string \<Rightarrow> string \<Rightarrow> fa_endpoint \<Rightarrow> operation" where
  "fa_operation m p e =
     \<lparr>op_summary = (if truthy (ep_summary e) then ep_summary e else CStr (m @ '' '' @ p)),
      op_description = ep_description e,
      op_operationId = lower m @ replace_char CHR ''/'' CHR ''-'' p,
      op_responses = ep_responses e,
      op_parameters = non_empty (ep_parameters e),
      op_requestBody = ep_request_body e,
      op_tags = non_empty (ep_tags e),
      op_security = non_empty (ep_security e)\<rparr>"

definition fa_add_endpoint :: "paths \<Rightarrow> fa_endpoint \<Rightarrow> py_error + paths" where
  \<comment> \<open>the body of the loop of \<open>generate_openapi\<close>\<close>
  "fa_add_endpoint ps e =
     (case ep_path e of
        CStr p \<Rightarrow>
          (case ep_method e of
             Some m \<Rightarrow> Inr (set_operation ps p (lower m) (fa_operation m p e))
           | None \<Rightarrow> Inl AttributeError)
      | _ \<Rightarrow> Inl AttributeError)"

fun fa_paths :: "paths \<Rightarrow> fa_endpoint list \<Rightarrow> py_error + paths" where
  "fa_paths ps [] = Inr ps"
| "fa_paths ps (e # es) =
     (case fa_add_endpoint ps e of Inl err \<Rightarrow> Inl err | Inr ps' \<Rightarrow> fa_paths ps' es)"

definition fa_default_info :: info where
  "fa_default_info =
     \<lparr>info_title = ''API'', info_version = ''1.0.0'',
      info_description = ''Generated from FastAPI code''\<rparr>"

definition fa_generate_openapi ::
  "info option \<Rightarrow> fa_endpoint list \<Rightarrow> (string \<times> schema) list \<Rightarrow> py_error + document" where
  \<comment> \<open>\<open>generate_openapi(info, endpoints, schemas)\<close>; \<open>main\<close> passes \<open>None\<close> for \<open>info\<close>\<close>
  "fa_generate_openapi inf0 endpoints schemas =
     (case fa_paths [] endpoints of
        Inl err \<Rightarrow> Inl err
      | Inr ps \<Rightarrow>
          Inr \<lparr>openapi = ''3.0.0'',
               doc_info = (case inf0 of Some i \<Rightarrow> i | None \<Rightarrow> fa_default_info),
               doc_paths = ps,
               components_schemas = schemas\<rparr>)"

section \<open>Flask: the visitor\<close>

text \<open>\<open>flask-analyzer.py\<close>, class \<open>FlaskVisitor\<close>.\<close>

record flask_endpoint =
  fe_method :: string
  fe_path :: pyconst
  fe_file :: string
  fe_line :: nat
  fe_function :: string
  fe_blueprint :: "string option"
  fe_summary :: string
  fe_description :: pyconst

record blueprint =
  bp_name :: pyconst
  bp_variable :: string

record flask_visitor =
  fv_file_path :: string
  fv_endpoints :: "flask_endpoint list"
  fv_schemas :: "(string \<times> schema) list"
  fv_blueprints :: "(string \<times> blueprint) list"
  fv_app_var :: "string option"

definition new_flask_visitor :: "string \<Rightarrow> flask_visitor" where
  "new_flask_visitor file_path =
     \<lparr>fv_file_path = file_path, fv_endpoints = [], fv_schemas = [], fv_blueprints = [],
      fv_app_var = None\<rparr>"

fun assign_targets :: "string \<Rightarrow> expr list \<Rightarrow> flask_visitor \<Rightarrow> expr list \<Rightarrow> flask_visitor" where
  \<comment> \<open>the two loops over \<open>node.targets\<close> in \<open>visit_Assign\<close>, for the called name \<open>i\<close>\<close>
  "assign_targets i as v [] = v"
| "assign_targets i as v (t # ts) =
     assign_targets i as
       (case t of
          Name target \<Rightarrow>
            (let v1 = (if i = ''Flask'' then v\<lparr>fv_app_var := Some target\<rparr> else v)
             in if i = ''Blueprint'' then
                  v1\<lparr>fv_blueprints :=
                       dict_set (fv_blueprints v1) target
                         \<lparr>bp_name = (case as of Constant c # _ \<Rightarrow> c | _ \<Rightarrow> CNone),
                          bp_variable = target\<rparr>\<rparr>
                else v1)
        | _ \<Rightarrow> v)
       ts"

definition visit_Assign :: "flask_visitor \<Rightarrow> expr list \<Rightarrow> expr \<Rightarrow> flask_visitor" where
  "visit_Assign v targets val =
     (case val of
        Call f as kws ln \<Rightarrow>
          (case f of Name i \<Rightarrow> assign_targets i as v targets | _ \<Rightarrow> v)
      | _ \<Rightarrow> v)"

fun flask_get_route_decorator :: "expr list \<Rightarrow> call option" where
  \<comment> \<open>\<open>_get_route_decorator\<close>: the first call of an attribute named \<open>route\<close>\<close>
  "flask_get_route_decorator [] = None"
| "flask_get_route_decorator (d # ds) =
     (case d of
        Call f as kws ln \<Rightarrow>
          (case f of
             Attribute v a \<Rightarrow>
               if a = ''route'' then Some (f, as, kws, ln) else flask_get_route_decorator ds
           | _ \<Rightarrow> flask_get_route_decorator ds)
      | _ \<Rightarrow> flask_get_route_decorator ds)"

fun keyword_methods :: "pyconst list \<Rightarrow> keyword list \<Rightarrow> pyconst list" where
  \<comment> \<open>the loop over \<open>decorator.keywords\<close>: a \<open>methods=[...]\<close> list replaces the methods\<close>
  "keyword_methods methods [] = methods"
| "keyword_methods methods ((k, v) # kws) =
     keyword_methods
       (if k = Some ''methods'' then
          (case v of
             ListE elts \<Rightarrow> concat (map (\<lambda>e. case e of Constant c \<Rightarrow> [c] | _ \<Rightarrow> []) elts)
           | _ \<Rightarrow> methods)
        else methods)
       kws"

definition flask_parse_route_decorator ::
  "(string \<times> blueprint) list \<Rightarrow> call \<Rightarrow> pyconst list \<times> pyconst \<times> string option" where
  \<comment> \<open>\<open>_parse_route_decorator\<close>: methods, path, blueprint\<close>
  "flask_parse_route_decorator blueprints d =
     (case d of (f, as, kws, ln) \<Rightarrow>
        (keyword_methods [CStr ''GET''] kws,
         decorator_path as,
         (case f of
            Attribute v a \<Rightarrow>
              (case v of
                 Name i \<Rightarrow> if dict_get blueprints i \<noteq> None then Some i else None
               | _ \<Rightarrow> None)
          | _ \<Rightarrow> None)))"

fun title_from :: "bool \<Rightarrow> string \<Rightarrow> string" where
  \<comment> \<open>\<open>str.title\<close>: a letter after a letter is lowered, any other letter is raised\<close>
  "title_from prev [] = []"
| "title_from prev (c # cs) =
     (if is_alpha c then (if prev then lower_char c else upper_char c) # title_from True cs
      else c # title_from False cs)"

definition extract_summary :: "string \<Rightarrow> string" where
  \<comment> \<open>\<open>_extract_summary\<close>: \<open>node.name.replace('_', ' ').title()\<close>\<close>
  "extract_summary name = title_from False (replace_char CHR ''_'' CHR '' '' name)"

definition flask_extract_docstring :: "stmt list \<Rightarrow> pyconst" where
  \<comment> \<open>\<open>_extract_docstring(node)\<close>, over \<open>node.body\<close>\<close>
  "flask_extract_docstring body =
     (case body of
        Expr e # _ \<Rightarrow> (case e of Constant c \<Rightarrow> c | _ \<Rightarrow> CNone)
      | _ \<Rightarrow> CNone)"

text \<open>
  The loop \<open>for method in methods\<close>: \<open>method.upper()\<close> raises \<open>AttributeError\<close>
  when the constant in the list is not a string.
\<close>

fun method_endpoints ::
  "(string \<Rightarrow> flask_endpoint) \<Rightarrow> pyconst list \<Rightarrow> py_error + flask_endpoint list" where
  "method_endpoints mk [] = Inr []"
| "method_endpoints mk (m # ms) =
     (case m of
        CStr s \<Rightarrow>
          (case method_endpoints mk ms of
             Inl e \<Rightarrow> Inl e
           | Inr es \<Rightarrow> Inr (mk (upper s) # es))
      | _ \<Rightarrow> Inl AttributeError)"

definition flask_visit_FunctionDef ::
  "flask_visitor \<Rightarrow> fdef \<Rightarrow> stmt list \<Rightarrow> py_error + flask_visitor" where
  \<comment> \<open>\<open>visit_FunctionDef\<close> up to its call of \<open>generic_visit\<close>\<close>
  "flask_visit_FunctionDef v fd body =
     (case flask_get_route_decorator (fd_decorator_list fd) of
        None \<Rightarrow> Inr v
      | Some d \<Rightarrow>
          (case flask_parse_route_decorator (fv_blueprints v) d of
             (methods0, path, bp) \<Rightarrow>
               let methods = (if methods0 = [] then [CStr ''GET''] else methods0) in
               (case method_endpoints
                       (\<lambda>m. \<lparr>fe_method = m, fe_path = path, fe_file = fv_file_path v,
                              fe_line = fd_lineno fd, fe_function = fd_name fd,
                              fe_blueprint = bp, fe_summary = extract_summary (fd_name fd),
                              fe_description = flask_extract_docstring body\<rparr>)
                       methods of
                  Inl e \<Rightarrow> Inl e
                | Inr es \<Rightarrow> Inr (v\<lparr>fv_endpoints := fv_endpoints v @ es\<rparr>))))"

fun flask_visit :: "flask_visitor \<Rightarrow> stmt \<Rightarrow> py_error + flask_visitor"
  and flask_visit_body :: "flask_visitor \<Rightarrow> stmt list \<Rightarrow> py_error + flask_visitor" where
  "flask_visit v (FunctionDef fd body) =
     (case flask_visit_FunctionDef v fd body of
        Inl e \<Rightarrow> Inl e
      | Inr v' \<Rightarrow> flask_visit_body v' body)"
| "flask_visit v (ClassDef name decorators body) = flask_visit_body v body"
| "flask_visit v (Assign targets val) = Inr (visit_Assign v targets val)"
| "flask_visit v (Expr e) = Inr v"
| "flask_visit v (OtherStmt body) = flask_visit_body v body"
| "flask_visit_body v [] = Inr v"
| "flask_visit_body v (s # ss) =
     (case flask_visit v s of Inl e \<Rightarrow> Inl e | Inr v' \<Rightarrow> flask_visit_body v' ss)"

section \<open>Flask: the analyzer\<close>

record flask_analyzer =
  fl_endpoints :: "flask_endpoint list"
  fl_schemas :: "(string \<times> schema) list"
  fl_blueprints :: "(string \<times> (string \<times> blueprint) list) list"
  fl_log :: "warning list"

definition new_flask_analyzer :: flask_analyzer where
  "new_flask_analyzer = \<lparr>fl_endpoints = [], fl_schemas = [], fl_blueprints = [], fl_log = []\<rparr>"

definition flask_visit_file :: "parser \<Rightarrow> source_file \<Rightarrow> py_error + flask_visitor" where
  "flask_visit_file parse f =
     (case f of (file_path, rd) \<Rightarrow>
        (case rd of
           None \<Rightarrow> Inl OSError
         | Some content \<Rightarrow>
             (case parse content of
                Inl e \<Rightarrow> Inl e
              | Inr tree \<Rightarrow> flask_visit_body (new_flask_visitor file_path) tree)))"

definition flask_analyze_file :: "parser \<Rightarrow> flask_analyzer \<Rightarrow> source_file \<Rightarrow> flask_analyzer" where
  \<comment> \<open>\<open>_analyze_file\<close>\<close>
  "flask_analyze_file parse a f =
     (case flask_visit_file parse f of
        Inl e \<Rightarrow> a\<lparr>fl_log := fl_log a @ [warning_for e (fst f)]\<rparr>
      | Inr v \<Rightarrow>
          a\<lparr>fl_endpoints := fl_endpoints a @ fv_endpoints v,
            fl_schemas := dict_update (fl_schemas a) (fv_schemas v),
            fl_blueprints :=
              (if fv_blueprints v \<noteq> [] then dict_set (fl_blueprints a) (fst f) (fv_blueprints v)
               else fl_blueprints a)\<rparr>)"

definition flask_analyze :: "parser \<Rightarrow> source_file list \<Rightarrow> flask_analyzer" where
  "flask_analyze parse files = foldl (flask_analyze_file parse) new_flask_analyzer files"

section \<open>Flask: \<open>generate_openapi\<close>\<close>

definition flask_type_map :: "(string \<times> string) list" where
  "flask_type_map =
     [(''string'', ''string''), (''int'', ''integer''), (''float'', ''number''),
      (''path'', ''string''), (''uuid'', ''string''), (''any'', ''string'')]"

definition flask_type_to_openapi :: "string \<Rightarrow> string" where
  \<comment> \<open>\<open>_flask_type_to_openapi\<close>\<close>
  "flask_type_to_openapi flask_type =
     (case map_of flask_type_map (lower flask_type) of Some t \<Rightarrow> t | None \<Rightarrow> ''string'')"

definition flask_path_parameter :: "string \<times> string \<Rightarrow> parameter" where
  \<comment> \<open>the parameter built for one tuple \<open>(param_type, param_name)\<close> of \<open>findall\<close>\<close>
  "flask_path_parameter g =
     (case g of (param_type, param_name) \<Rightarrow>
        \<lparr>p_name = param_name, p_in = ''path'', p_required = True,
         p_schema =
           Schema (if param_type \<noteq> [] then flask_type_to_openapi param_type else ''string'')
             None False None\<rparr>)"

text \<open>
  The operation of one endpoint. \<open>converted_path\<close> is computed where the source
  computes it; as in the source, nothing reads it afterwards.
\<close>

definition flask_operation :: "string \<Rightarrow> flask_endpoint \<Rightarrow> operation" where
  "flask_operation p e =
     (let path_params = findall_placeholders p;
          converted_path = convert_path p;
          params = map flask_path_parameter path_params
      in \<lparr>op_summary = CStr (fe_summary e),
          op_description = fe_description e,
          op_operationId = lower (fe_method e) @ replace_char CHR ''/'' CHR ''-'' p,
          op_responses =
            [(''200'', \<lparr>r_description = ''Successful response'', r_content_schema = None\<rparr>)],
          op_parameters = non_empty params,
          op_requestBody = None,
          op_tags = None,
          op_security = None\<rparr>)"

definition flask_add_endpoint :: "paths \<Rightarrow> flask_endpoint \<Rightarrow> py_error + paths" where
  \<comment> \<open>the body of the loop of \<open>generate_openapi\<close>; a path that is not a string makes
      \<open>endpoint['path'].replace\<close> raise\<close>
  "flask_add_endpoint ps e =
     (case fe_path e of
        CStr p \<Rightarrow> Inr (set_operation ps p (lower (fe_method e)) (flask_operation p e))
      | _ \<Rightarrow> Inl AttributeError)"

fun flask_paths :: "paths \<Rightarrow> flask_endpoint list \<Rightarrow> py_error + paths" where
  "flask_paths ps [] = Inr ps"
| "flask_paths ps (e # es) =
     (case flask_add_endpoint ps e of Inl err \<Rightarrow> Inl err | Inr ps' \<Rightarrow> flask_paths ps' es)"

definition flask_default_info :: info where
  "flask_default_info =
     \<lparr>info_title = ''Flask API'', info_version = ''1.0.0'',
      info_description = ''Generated from Flask code''\<rparr>"

definition flask_generate_openapi ::
  "info option \<Rightarrow> flask_endpoint list \<Rightarrow> (string \<times> schema) list \<Rightarrow> py_error + document" where
  "flask_generate_openapi inf0 endpoints schemas =
     (case flask_paths [] endpoints of
        Inl err \<Rightarrow> Inl err
      | Inr ps \<Rightarrow>
          Inr \<lparr>openapi = ''3.0.0'',
               doc_info = (case inf0 of Some i \<Rightarrow> i | None \<Rightarrow> flask_default_info),
               doc_paths = ps,
               components_schemas = schemas\<rparr>)"

section \<open>Spring: the patterns\<close>

text \<open>
  \<open>spring-analyzer.py\<close> reads Java text with regular expressions. Each pattern
  is modelled by its match attempt at the head of a string; \<open>search\<close> is
  \<open>re.search\<close>, the first position from the left where the attempt succeeds.

  In every pattern below each repetition is followed by something its class
  excludes (\<open>\s*\<close> by a letter, \<open>=\<close> or a quote, \<open>[^"]+\<close> by the quote, \<open>\S+\<close> by
  white space, \<open>\w+\<close> by white space or \<open>(\<close>), so an attempt can only
  succeed with every repetition taking its maximal run: the attempt is
  deterministic and \<open>takeWhile\<close>/\<open>dropWhile\<close> compute it.
\<close>

definition lit :: "string \<Rightarrow> string \<Rightarrow> string option" where
  \<comment> \<open>a literal at the head: the text after it\<close>
  "lit p s = (if starts_with s p then Some (drop (length p) s) else None)"

fun search :: "(string \<Rightarrow> 'a option) \<Rightarrow> string \<Rightarrow> 'a option" where
  "search m [] = m []"
| "search m (c # cs) = (case m (c # cs) of Some x \<Rightarrow> Some x | None \<Rightarrow> search m cs)"

definition quoted :: "string \<Rightarrow> string option" where
  \<comment> \<open>\<open>"([^"]+)"\<close> at the head: the group\<close>
  "quoted s =
     (case s of
        [] \<Rightarrow> None
      | c # t \<Rightarrow>
          if c = dq \<and> takeWhile (\<lambda>x. x \<noteq> dq) t \<noteq> [] \<and> dropWhile (\<lambda>x. x \<noteq> dq) t \<noteq> []
          then Some (takeWhile (\<lambda>x. x \<noteq> dq) t) else None)"

definition mapping_words :: "string list" where
  "mapping_words = [''Get'', ''Post'', ''Put'', ''Delete'', ''Patch'', ''Request'']"

definition match_mapping :: "string \<Rightarrow> string option" where
  \<comment> \<open>\<open>@(Get|Post|Put|Delete|Patch|Request)Mapping\(?\<close>: group 1\<close>
  "match_mapping s =
     (case lit ''@'' s of
        None \<Rightarrow> None
      | Some s1 \<Rightarrow> find (\<lambda>w. starts_with s1 (w @ ''Mapping'')) mapping_words)"

definition match_class_mapping :: "string \<Rightarrow> string option" where
  \<comment> \<open>\<open>@RequestMapping\(\s*value\s*=\s*"([^"]+)"\<close>: group 1\<close>
  "match_class_mapping s =
     (case lit ''@RequestMapping('' s of
        None \<Rightarrow> None
      | Some s1 \<Rightarrow>
          (case lit ''value'' (dropWhile is_space s1) of
             None \<Rightarrow> None
           | Some s2 \<Rightarrow>
               (case lit ''='' (dropWhile is_space s2) of
                  None \<Rightarrow> None
                | Some s3 \<Rightarrow> quoted (dropWhile is_space s3))))"

definition match_value_path :: "string \<Rightarrow> string option" where
  \<comment> \<open>\<open>(value|path)\s*=\s*"([^"]+)"\<close>: group 2\<close>
  "match_value_path s =
     (case (case lit ''value'' s of Some r \<Rightarrow> Some r | None \<Rightarrow> lit ''path'' s) of
        None \<Rightarrow> None
      | Some s1 \<Rightarrow>
          (case lit ''='' (dropWhile is_space s1) of
             None \<Rightarrow> None
           | Some s2 \<Rightarrow> quoted (dropWhile is_space s2)))"

text \<open>
  \<open>@[A-Za-z]+Mapping\(\s*"([^"]+)"\<close>: \<open>Mapping\<close> consists of letters and \<open>(\<close> is not
  one, so the letters after \<open>@\<close> must end in \<open>Mapping\<close>, with at least one letter
  before it, and \<open>(\<close> must follow them.
\<close>

definition match_shorthand :: "string \<Rightarrow> string option" where
  "match_shorthand s =
     (case lit ''@'' s of
        None \<Rightarrow> None
      | Some s1 \<Rightarrow>
          let letters = takeWhile is_alpha s1 in
          if 8 \<le> length letters \<and> drop (length letters - 7) letters = ''Mapping'' then
            (case lit ''('' (dropWhile is_alpha s1) of
               None \<Rightarrow> None
             | Some s2 \<Rightarrow> quoted (dropWhile is_space s2))
          else None)"

definition match_return_type :: "string \<Rightarrow> string option" where
  \<comment> \<open>\<open>(?:public|private|protected)\s+(\S+)\s+\w+\s*\(\<close>: group 1\<close>
  "match_return_type s =
     (case (case lit ''public'' s of
              Some r \<Rightarrow> Some r
            | None \<Rightarrow> (case lit ''private'' s of Some r \<Rightarrow> Some r | None \<Rightarrow> lit ''protected'' s)) of
        None \<Rightarrow> None
      | Some s1 \<Rightarrow>
          let s2 = dropWhile is_space s1;
              g = takeWhile (\<lambda>c. \<not> is_space c) s2;
              s3 = dropWhile (\<lambda>c. \<not> is_space c) s2;
              s4 = dropWhile is_space s3;
              s5 = dropWhile is_word s4
          in if takeWhile is_space s1 = [] \<or> g = [] \<or> takeWhile is_space s3 = []
                \<or> takeWhile is_word s4 = [] then None
             else (case lit ''('' (dropWhile is_space s5) of None \<Rightarrow> None | Some r \<Rightarrow> Some g))"

definition match_params :: "string \<Rightarrow> string option" where
  \<comment> \<open>\<open>\(([^)]*)\)\<close>: group 1\<close>
  "match_params s =
     (case s of
        [] \<Rightarrow> None
      | c # t \<Rightarrow>
          if c = CHR ''('' \<and> dropWhile (\<lambda>x. x \<noteq> CHR '')'') t \<noteq> []
          then Some (takeWhile (\<lambda>x. x \<noteq> CHR '')'') t) else None)"

text \<open>
  \<open>@?(\w+(?:<[^>]+>)?)\s+(\w+)\<close>, the pattern of \<open>findall\<close> over the parameter
  list: a match attempt gives the two groups and the text after the match.
  When \<open><\<close> follows the first word, the generic part must match, since
  without it \<open>\s+\<close> would have to match at \<open><\<close>.
\<close>

definition match_param :: "string \<Rightarrow> (string \<times> string \<times> string) option" where
  "match_param s =
     (let s0 = (case lit ''@'' s of Some r \<Rightarrow> r | None \<Rightarrow> s);
          w = takeWhile is_word s0;
          s1 = dropWhile is_word s0
      in if w = [] then None
         else
           (case (case s1 of
                    [] \<Rightarrow> Some (w, s1)
                  | c # t \<Rightarrow>
                      if c = CHR ''<'' then
                        (let g = takeWhile (\<lambda>x. x \<noteq> CHR ''>'') t;
                             r = dropWhile (\<lambda>x. x \<noteq> CHR ''>'') t
                         in if g \<noteq> [] \<and> r \<noteq> [] then Some (w @ ''<'' @ g @ ''>'', tl r) else None)
                      else Some (w, s1)) of
              None \<Rightarrow> None
            | Some (ty, s2) \<Rightarrow>
                let s3 = dropWhile is_space s2 in
                if takeWhile is_space s2 = [] \<or> takeWhile is_word s3 = [] then None
                else Some (ty, takeWhile is_word s3, dropWhile is_word s3)))"

lemma lit_length: "lit p s = Some r \<Longrightarrow> length r \<le> length s"
  by (auto simp: lit_def split: if_splits)

lemma takeWhile_nonempty_shorter:
  "takeWhile P xs \<noteq> [] \<Longrightarrow> length (dropWhile P xs) < length xs"
  by (cases xs) (auto simp: le_imp_less_Suc length_dropWhile_le split: if_splits)

lemma match_param_shorter:
  assumes "match_param s = Some (ty, n, r)"
  shows "length r < length s"
proof -
  define s0 where "s0 = (case lit ''@'' s of Some r \<Rightarrow> r | None \<Rightarrow> s)"
  define s1 where "s1 = dropWhile is_word s0"
  have l0: "length s0 \<le> length s"
    by (auto simp: s0_def split: option.splits dest: lit_length)
  have l1: "length s1 \<le> length s0"
    by (simp add: s1_def length_dropWhile_le)
  from assms obtain s2 where
    s2: "length s2 \<le> length s1"
    and rest: "takeWhile is_space s2 \<noteq> []" "r = dropWhile is_word (dropWhile is_space s2)"
  proof (cases s1)
    case Nil
    with assms that [of s1] show ?thesis
      by (simp add: match_param_def Let_def s0_def [symmetric] s1_def [symmetric]
            split: if_splits)
  next
    case (Cons c t)
    show ?thesis
    proof (cases "c = CHR ''<''")
      case False
      with Cons assms that [of s1] show ?thesis
        by (simp add: match_param_def Let_def s0_def [symmetric] s1_def [symmetric]
              split: if_splits)
    next
      case True
      have "length (tl (dropWhile (\<lambda>x. x \<noteq> CHR ''>'') t)) \<le> length s1"
        using Cons length_dropWhile_le [of "\<lambda>x. x \<noteq> CHR ''>''" t] by simp
      with True Cons assms that [of "tl (dropWhile (\<lambda>x. x \<noteq> CHR ''>'') t)"] show ?thesis
        by (simp add: match_param_def Let_def s0_def [symmetric] s1_def [symmetric]
              split: if_splits)
    qed
  qed
  have "length r \<le> length (dropWhile is_space s2)"
    by (simp add: rest(2) length_dropWhile_le)
  also have "\<dots> < length s2"
    using rest(1) by (rule takeWhile_nonempty_shorter)
  finally show ?thesis using s2 l1 l0 by simp
qed

function findall_params :: "string \<Rightarrow> (string \<times> string) list" where
  "findall_params [] = []"
| "findall_params (c # t) =
     (case match_param (c # t) of
        Some (ty, n, r) \<Rightarrow> (ty, n) # findall_params r
      | None \<Rightarrow> findall_params t)"
  by pat_completeness auto
termination
  by (relation "measure length") (auto dest: match_param_shorter)

fun split_ws :: "string \<Rightarrow> string list" where
  \<comment> \<open>\<open>s.split()\<close>: the maximal runs of characters that are not white space\<close>
  "split_ws [] = []"
| "split_ws (c # cs) =
     (if is_space c then split_ws cs
      else
        (case cs of
           [] \<Rightarrow> [[c]]
         | d # ds \<Rightarrow>
             if is_space d then [c] # split_ws cs
             else (case split_ws cs of [] \<Rightarrow> [[c]] | w # ws \<Rightarrow> (c # w) # ws)))"

function remove_Mapping :: "string \<Rightarrow> string" where
  \<comment> \<open>\<open>s.replace('Mapping', '')\<close>\<close>
  "remove_Mapping [] = []"
| "remove_Mapping (c # cs) =
     (if starts_with (c # cs) ''Mapping'' then remove_Mapping (drop 6 cs)
      else c # remove_Mapping cs)"
  by pat_completeness auto
termination
  by (relation "measure length") auto

section \<open>Spring: the analyzer\<close>

text \<open>
  Class \<open>SpringBootAnalyzer\<close>. Of the endpoint dictionary the model keeps
  \<open>method\<close>, \<open>path\<close>, \<open>file\<close>, \<open>line\<close>, \<open>parameters\<close> and \<open>responses\<close>; \<open>summary\<close> and
  \<open>description\<close> come from \<open>_extract_javadoc\<close>, which reads the comment above the
  annotation, raises nothing and touches none of the other keys.
\<close>

record class_level =
  base_path :: "string option"
  is_rest_controller :: bool

definition extract_class_annotations :: "string \<Rightarrow> class_level" where
  \<comment> \<open>\<open>_extract_class_annotations\<close>\<close>
  "extract_class_annotations content =
     \<lparr>base_path = search match_class_mapping content,
      is_rest_controller = str_in ''@RestController'' content\<rparr>"

record signature =
  sig_parameters :: "(string \<times> string) list"
  sig_return_type :: string

definition carrier_names :: "string list" where
  "carrier_names = [''Model'', ''ModelMap'', ''HttpServletRequest'', ''HttpServletResponse'']"

definition parse_method_signature :: "string list \<Rightarrow> signature" where
  \<comment> \<open>\<open>_parse_method_signature\<close>; a parameter is kept as the pair (name, type)\<close>
  "parse_method_signature lines =
     (let sig = join '' '' (split_ws (join '' '' (take 3 lines)))
      in \<lparr>sig_parameters =
             (case search match_params sig of
                None \<Rightarrow> []
              | Some params_str \<Rightarrow>
                  map (\<lambda>(param_type, param_name). (param_name, param_type))
                    (filter (\<lambda>(param_type, param_name). param_name \<notin> set carrier_names)
                       (findall_params params_str))),
          sig_return_type =
             (case search match_return_type sig of None \<Rightarrow> ''void'' | Some t \<Rightarrow> t)\<rparr>)"

definition java_type_map :: "(string \<times> string) list" where
  "java_type_map =
     [(''String'', ''string''), (''Integer'', ''integer''), (''int'', ''integer''),
      (''Long'', ''integer''), (''long'', ''integer''), (''Double'', ''number''),
      (''double'', ''number''), (''Float'', ''number''), (''float'', ''number''),
      (''Boolean'', ''boolean''), (''boolean'', ''boolean''), (''LocalDate'', ''string''),
      (''LocalDateTime'', ''string''), (''UUID'', ''string''), (''List'', ''array''),
      (''Set'', ''array''), (''void'', ''void'')]"

definition java_type_to_openapi :: "string \<Rightarrow> string" where
  \<comment> \<open>\<open>_java_type_to_openapi\<close>\<close>
  "java_type_to_openapi java_type =
     (case map_of java_type_map
             (if CHR ''<'' \<in> set java_type then takeWhile (\<lambda>c. c \<noteq> CHR ''<'') java_type
              else java_type) of
        Some t \<Rightarrow> t
      | None \<Rightarrow> ''object'')"

record sp_parameter =
  sp_name :: string
  sp_in :: string
  sp_type :: string

definition extract_parameters_from_signature :: "signature option \<Rightarrow> py_error + sp_parameter list" where
  \<comment> \<open>\<open>_extract_parameters_from_signature\<close>; \<open>None.get\<close> raises \<open>AttributeError\<close>\<close>
  "extract_parameters_from_signature sg =
     (case sg of
        None \<Rightarrow> Inl AttributeError
      | Some sg' \<Rightarrow>
          Inr (map (\<lambda>(param_name, param_type).
                      \<lparr>sp_name = param_name, sp_in = ''query'',
                       sp_type = java_type_to_openapi param_type\<rparr>)
                 (sig_parameters sg')))"

definition extract_responses_from_signature ::
  "signature option \<Rightarrow> py_error + (string \<times> response) list" where
  \<comment> \<open>\<open>_extract_responses_from_signature\<close>\<close>
  "extract_responses_from_signature sg =
     (case sg of
        None \<Rightarrow> Inl AttributeError
      | Some sg' \<Rightarrow>
          Inr [(''200'',
                \<lparr>r_description = ''Successful response'',
                 r_content_schema =
                   (if sig_return_type sg' \<noteq> ''void''
                    then Some (Schema (java_type_to_openapi (sig_return_type sg')) None False None)
                    else None)\<rparr>)])"

record sp_endpoint =
  se_method :: string
  se_path :: string
  se_file :: string
  se_line :: nat
  se_parameters :: "sp_parameter list"
  se_responses :: "(string \<times> response) list"

fun window_path :: "string list \<Rightarrow> string option" where
  \<comment> \<open>the first loop of \<open>_parse_endpoint_annotation\<close>, over the lines of the window\<close>
  "window_path [] = None"
| "window_path (l # ls) =
     (case search match_value_path l of
        Some p \<Rightarrow> Some p
      | None \<Rightarrow>
          (case search match_shorthand l of
             Some p \<Rightarrow> Some p
           | None \<Rightarrow> window_path ls))"

definition annotation_path :: "string list \<Rightarrow> nat \<Rightarrow> string" where
  \<comment> \<open>the method-level path: \<open>'/'\<close> unless one of the five lines from \<open>start_line\<close> on
      gives one\<close>
  "annotation_path lines start_line =
     (case window_path (take 5 (drop start_line lines)) of Some p \<Rightarrow> p | None \<Rightarrow> ''/'')"

fun window_signature :: "nat \<Rightarrow> string list \<Rightarrow> signature option" where
  \<comment> \<open>the second loop: the first line that names a visibility starts the signature\<close>
  "window_signature 0 ls = None"
| "window_signature (Suc k) [] = None"
| "window_signature (Suc k) (l # ls) =
     (if str_in ''public'' l \<or> str_in ''private'' l \<or> str_in ''protected'' l
      then Some (parse_method_signature (l # ls))
      else window_signature k ls)"

definition full_path :: "class_level \<Rightarrow> string \<Rightarrow> string" where
  \<comment> \<open>\<open>full_path\<close>: the class's base path without its trailing slashes, then the
      method's path\<close>
  "full_path cl path =
     (case base_path cl of
        Some b \<Rightarrow> if b \<noteq> [] then rstrip_chars (\<lambda>c. c = CHR ''/'') b @ path else path
      | None \<Rightarrow> path)"

definition parse_endpoint_annotation ::
  "string list \<Rightarrow> nat \<Rightarrow> string \<Rightarrow> string \<Rightarrow> class_level \<Rightarrow> py_error + sp_endpoint" where
  \<comment> \<open>\<open>_parse_endpoint_annotation\<close>\<close>
  "parse_endpoint_annotation lines start_line method_type file_path cl =
     (let path = annotation_path lines start_line;
          method0 = upper (remove_Mapping method_type);
          method = (if method0 = ''REQUEST'' then ''GET'' else method0);
          method_signature = window_signature 10 (drop start_line lines)
      in (case extract_parameters_from_signature method_signature of
            Inl e \<Rightarrow> Inl e
          | Inr params \<Rightarrow>
              (case extract_responses_from_signature method_signature of
                 Inl e \<Rightarrow> Inl e
               | Inr responses \<Rightarrow>
                   Inr \<lparr>se_method = method, se_path = full_path cl path, se_file = file_path,
                        se_line = start_line + 1, se_parameters = params,
                        se_responses = responses\<rparr>)))"

text \<open>
  The loop \<open>for i, line in enumerate(lines)\<close> of \<open>_parse_java_file\<close>, from line
  \<open>i\<close> on: every line with a mapping annotation gives an endpoint, appended to
  the analyzer's list at once. The result is the endpoints appended and the
  exception that ended the loop, if one did. (The schemas the method collects
  afterwards are not modelled.)
\<close>

fun mapping_lines ::
  "string list \<Rightarrow> string \<Rightarrow> class_level \<Rightarrow> nat \<Rightarrow> string list
     \<Rightarrow> sp_endpoint list \<times> py_error option" where
  "mapping_lines lines file_path cl i [] = ([], None)"
| "mapping_lines lines file_path cl i (line # rest) =
     (case search match_mapping line of
        None \<Rightarrow> mapping_lines lines file_path cl (Suc i) rest
      | Some method_type \<Rightarrow>
          (case parse_endpoint_annotation lines i method_type file_path cl of
             Inl e \<Rightarrow> ([], Some e)
           | Inr ep \<Rightarrow>
               (case mapping_lines lines file_path cl (Suc i) rest of
                  (eps, err) \<Rightarrow> (ep # eps, err))))"

definition parse_java_file :: "string \<Rightarrow> string \<Rightarrow> sp_endpoint list \<times> py_error option" where
  "parse_java_file file_path content =
     (let lines = split_on nl content
      in mapping_lines lines file_path (extract_class_annotations content) 0 lines)"

section \<open>Reading the document\<close>

definition path_lookup :: "paths \<Rightarrow> string \<Rightarrow> string \<Rightarrow> operation option" where
  \<comment> \<open>\<open>paths[path][method]\<close>, \<open>None\<close> when a key is missing\<close>
  "path_lookup ps p m = (case dict_get ps p of None \<Rightarrow> None | Some ms \<Rightarrow> dict_get ms m)"

definition unique_keys :: "paths \<Rightarrow> bool" where
  \<comment> \<open>no path occurs twice, and under a path no method occurs twice\<close>
  "unique_keys ps = (distinct (map fst ps) \<and> list_all (\<lambda>(p, ms). distinct (map fst ms)) ps)"

text \<open>
  What one endpoint writes into \<open>paths\<close>: the path, the lower-case method and
  the operation; \<open>None\<close> for an endpoint on which \<open>generate_openapi\<close> raises.
\<close>

definition fa_entry :: "fa_endpoint \<Rightarrow> (string \<times> string \<times> operation) option" where
  "fa_entry e =
     (case ep_path e of
        CStr p \<Rightarrow>
          (case ep_method e of Some m \<Rightarrow> Some (p, lower m, fa_operation m p e) | None \<Rightarrow> None)
      | _ \<Rightarrow> None)"

definition flask_entry :: "flask_endpoint \<Rightarrow> (string \<times> string \<times> operation) option" where
  "flask_entry e =
     (case fe_path e of
        CStr p \<Rightarrow> Some (p, lower (fe_method e), flask_operation p e)
      | _ \<Rightarrow> None)"

definition last_entry ::
  "(string \<times> string \<times> operation) list \<Rightarrow> string \<Rightarrow> string \<Rightarrow> operation option" where
  \<comment> \<open>the operation of the last entry written for the path and the method\<close>
  "last_entry ents p m =
     map_option (\<lambda>(p', m', op). op) (find (\<lambda>(p', m', op). p' = p \<and> m' = m) (rev ents))"

text \<open>Writing a list of entries into \<open>paths\<close>, one after the other.\<close>

fun set_operations :: "paths \<Rightarrow> (string \<times> string \<times> operation) list \<Rightarrow> paths" where
  "set_operations ps [] = ps"
| "set_operations ps ((p, m, op) # ents) = set_operations (set_operation ps p m op) ents"

section \<open>The run\<close>

text \<open>
  \<open>main\<close> of \<open>fastapi-analyzer.py\<close> and of \<open>flask-analyzer.py\<close>: analyze the files,
  then generate the document from the endpoints and the schemas found. (The
  document is printed as JSON; the files are those \<open>_find_files\<close> lists.)
\<close>

definition fa_main :: "parser \<Rightarrow> source_file list \<Rightarrow> py_error + document" where
  "fa_main parse files =
     (let result = analyze parse files
      in fa_generate_openapi None (a_endpoints result) (a_schemas result))"

definition flask_main :: "parser \<Rightarrow> source_file list \<Rightarrow> py_error + document" where
  "flask_main parse files =
     (let result = flask_analyze parse files
      in flask_generate_openapi None (fl_endpoints result) (fl_schemas result))"

section \<open>Example inputs\<close>

text \<open>
  Two declarations of \<open>GET /ping\<close>, as the analyzers emit them, that differ in
  the summary only.
\<close>

definition ping :: "string \<Rightarrow> fa_endpoint" where
  "ping summary =
     \<lparr>ep_method = Some ''GET'', ep_path = CStr ''/ping'', ep_file = ''app.py'', ep_line = 1,
      ep_function = ''ping'', ep_summary = CStr summary, ep_description = CNone, ep_tags = [],
      ep_parameters = [],
      ep_responses =
        [(''200'', \<lparr>r_description = ''Successful Response'', r_content_schema = None\<rparr>)],
      ep_request_body = None, ep_security = []\<rparr>"

definition flask_ping :: "string \<Rightarrow> flask_endpoint" where
  "flask_ping summary =
     \<lparr>fe_method = ''GET'', fe_path = CStr ''/ping'', fe_file = ''app.py'', fe_line = 1,
      fe_function = ''ping'', fe_blueprint = None, fe_summary = summary,
      fe_description = CNone\<rparr>"

text \<open>
  A FastAPI module that builds a router with a prefix and registers a route on
  it:
  \<^verbatim>\<open>
  router = APIRouter(prefix="/api")
  @router.get("/items")
  def list_items():
      return []
  \<close>
\<close>

definition list_items :: fdef where
  "list_items =
     \<lparr>fd_name = ''list_items'', fd_args = [], fd_defaults = [],
      fd_decorator_list = [Call (Attribute (Name ''router'') ''get'') [Constant (CStr ''/items'')] [] 2],
      fd_returns = None, fd_lineno = 3\<rparr>"

definition router_module :: "stmt list" where
  "router_module =
     [Assign [Name ''router'']
        (Call (Name ''APIRouter'') [] [(Some ''prefix'', Constant (CStr ''/api''))] 1),
      FunctionDef list_items [OtherStmt []]]"

text \<open>
  The forms \<open>visit_ClassDef\<close> looks for: a class decorated with
  \<open>@router(prefix="/api")\<close>, followed by the route, or holding it.
  \<^verbatim>\<open>
  @router(prefix="/api")          @router(prefix="/api")
  class Items:                    class Items:
      pass                            @router.get("/items")
  @router.get("/items")               def list_items():
  def list_items():                       return []
      return []
  \<close>
\<close>

definition class_then_route :: "stmt list" where
  "class_then_route =
     [ClassDef ''Items'' [Call (Name ''router'') [] [(Some ''prefix'', Constant (CStr ''/api''))] 1]
        [OtherStmt []],
      FunctionDef list_items [OtherStmt []]]"

definition route_in_class :: "stmt list" where
  "route_in_class =
     [ClassDef ''Items'' [Call (Name ''router'') [] [(Some ''prefix'', Constant (CStr ''/api''))] 1]
        [FunctionDef list_items [OtherStmt []]]]"

text \<open>
  A Spring handler that takes the request and the model:
  \<^verbatim>\<open>
      @GetMapping("/profile")
      public String profile(HttpServletRequest request, Model model) {
  \<close>
\<close>

definition profile_lines :: "string list" where
  "profile_lines =
     [''    @GetMapping('' @ [dq] @ ''/profile'' @ [dq] @ '')'',
      ''    public String profile(HttpServletRequest request, Model model) {'']"

text \<open>
  A FastAPI route whose path parameter has a default value:
  \<^verbatim>\<open>
  @app.get("/users/{id}")
  def get_user(id: int = 5, verbose: bool = False):
  \<close>
\<close>

definition get_user :: fdef where
  "get_user =
     \<lparr>fd_name = ''get_user'',
      fd_args = [\<lparr>arg = ''id'', annotation = Some (Name ''int'')\<rparr>,
                 \<lparr>arg = ''verbose'', annotation = Some (Name ''bool'')\<rparr>],
      fd_defaults = [Constant (CInt 5), Constant (CBool False)],
      fd_decorator_list = [Call (Attribute (Name ''app'') ''get'') [Constant (CStr ''/users/{id}'')] [] 1],
      fd_returns = None, fd_lineno = 2\<rparr>"

text \<open>
  A Spring controller with a class-level base path. \<open>widget_source path\<close> is
  \<^verbatim>\<open>
  @RestController
  @RequestMapping(value = "/api/v1")
  public class WidgetController {
      @GetMapping("<path>")
      public List<Widget> list() {
          return service.all();
      }
  }
  \<close>
\<close>

definition widget_source :: "string \<Rightarrow> string" where
  "widget_source path =
     join [nl]
       [''@RestController'',
        ''@RequestMapping(value = '' @ [dq] @ ''/api/v1'' @ [dq] @ '')'',
        ''public class WidgetController {'',
        ''    @GetMapping('' @ [dq] @ path @ [dq] @ '')'',
        ''    public List<Widget> list() {'',
        ''        return service.all();'',
        ''    }'',
        ''}'']"

text \<open>
  The text of the module \<open>router_module\<close> and a parser that, like \<open>ast.parse\<close>,
  gives that module for it and rejects \<^verbatim>\<open>def broken(:\<close>.
\<close>

definition router_source :: string where
  "router_source =
     join [nl]
       [''router = APIRouter(prefix='' @ [dq] @ ''/api'' @ [dq] @ '')'',
        ''@router.get('' @ [dq] @ ''/items'' @ [dq] @ '')'',
        ''def list_items():'',
        ''    return []'']"

definition example_parse :: parser where
  "example_parse content = (if content = router_source then Inr router_module else Inl SyntaxError)"

definition items_document :: document where
  \<comment> \<open>the document of the module \<open>router_module\<close> alone\<close>
  "items_document =
     \<lparr>openapi = ''3.0.0'', doc_info = fa_default_info,
      doc_paths =
        [(''/items'',
          [(''get'',
            \<lparr>op_summary = CStr ''GET /items'', op_description = CNone,
             op_operationId = ''get-items'',
             op_responses =
               [(''200'', \<lparr>r_description = ''Successful Response'', r_content_schema = None\<rparr>)],
             op_parameters = None, op_requestBody = None, op_tags = None,
             op_security = None\<rparr>)])],
      components_schemas = []\<rparr>"

definition empty_flask_document :: document where
  "empty_flask_document =
     \<lparr>openapi = ''3.0.0'', doc_info = flask_default_info, doc_paths = [], components_schemas = []\<rparr>"

definition no_literal_path :: "expr list \<Rightarrow> bool" where
  \<comment> \<open>the positional arguments of a decorator that give no path: there is none, or
      the first is not an \<open>ast.Constant\<close>\<close>
  "no_literal_path as = (case as of [] \<Rightarrow> True | x # _ \<Rightarrow> \<not> is_Constant x)"

text \<open>
  Routes whose path is not a string literal:
  \<^verbatim>\<open>
  @app.get(ITEMS_PATH)        @app.get(42)          @app.route(ITEMS_PATH)
  def dynamic():              def numbered():       def dynamic():
      return []                   return []             return []
  \<close>
  and the declared root route \<^verbatim>\<open>@app.get("/")\<close> of a function \<open>root\<close>.
  \<open>methods_route\<close> is the Flask route with a list of methods,
  \<^verbatim>\<open>@app.route(ITEMS_PATH, methods=['get', 'POST'])\<close>.
\<close>

definition route_function :: "string \<Rightarrow> string \<Rightarrow> expr list \<Rightarrow> fdef" where
  \<comment> \<open>\<open>@app.<attr>(<args>)\<close> on \<open>def <name>():\<close>\<close>
  "route_function name attr as =
     \<lparr>fd_name = name, fd_args = [], fd_defaults = [],
      fd_decorator_list = [Call (Attribute (Name ''app'') attr) as [] 1],
      fd_returns = None, fd_lineno = 2\<rparr>"


definition root_endpoint :: fa_endpoint where
  \<comment> \<open>what the FastAPI visitor emits for \<open>@app.get("/")\<close> on \<open>def root():\<close>\<close>
  "root_endpoint =
     \<lparr>ep_method = Some ''GET'', ep_path = CStr ''/'', ep_file = ''app.py'', ep_line = 2,
      ep_function = ''root'', ep_summary = CNone, ep_description = CNone, ep_tags = [],
      ep_parameters = [],
      ep_responses =
        [(''200'', \<lparr>r_description = ''Successful Response'', r_content_schema = None\<rparr>)],
      ep_request_body = None, ep_security = []\<rparr>"

definition flask_root_endpoint :: flask_endpoint where
  \<comment> \<open>what the Flask visitor emits for \<open>@app.route("/")\<close> on \<open>def root():\<close>\<close>
  "flask_root_endpoint =
     \<lparr>fe_method = ''GET'', fe_path = CStr ''/'', fe_file = ''app.py'', fe_line = 2,
      fe_function = ''root'', fe_blueprint = None, fe_summary = ''Root'',
      fe_description = CNone\<rparr>"

section \<open>Properties of the placeholder conversion\<close>

lemma not_word_special [simp]:
  "\<not> is_word CHR ''<''" "\<not> is_word CHR ''>''" "\<not> is_word CHR '':''" "\<not> is_word CHR ''{''" "\<not> is_word CHR ''}''"
  by (simp_all add: is_word_def)

lemma match_placeholder_head:
  "match_placeholder (c # t) = Some x \<Longrightarrow> c = CHR ''<''"
  by (auto simp: match_placeholder_def split: if_splits)

lemma match_placeholder_not_lt [simp]:
  "c \<noteq> CHR ''<'' \<Longrightarrow> match_placeholder (c # t) = None"
  by (simp add: match_placeholder_def)

lemma convert_path_Cons_cases:
  obtains (copy) "match_placeholder (c # t) = None" "convert_path (c # t) = c # convert_path t"
  | (subst) g1 g2 r where "match_placeholder (c # t) = Some (g1, g2, r)"
      "convert_path (c # t) = CHR ''{'' # g2 @ CHR ''}'' # convert_path r"
proof (cases "match_placeholder (c # t)")
  case None
  then show ?thesis using copy by simp
next
  case (Some x)
  obtain g1 g2 r where "x = (g1, g2, r)" by (cases x)
  with Some show ?thesis using subst by simp
qed

lemma convert_path_head_not_word:
  "\<not> is_word c \<Longrightarrow> \<exists>d u. convert_path (c # t) = d # u \<and> \<not> is_word d"
  by (cases c t rule: convert_path_Cons_cases) (simp_all del: convert_path.simps)

lemma takeWhile_convert_path:
  "takeWhile is_word (convert_path t) = takeWhile is_word t"
proof (induction t)
  case Nil show ?case by simp
next
  case (Cons c t)
  show ?case
  proof (cases "is_word c")
    case True
    then have "c \<noteq> CHR ''<''" by auto
    with True Cons show ?thesis by simp
  next
    case False
    with convert_path_head_not_word [of c t] show ?thesis
      by (auto simp del: convert_path.simps)
  qed
qed

lemma dropWhile_convert_path:
  "dropWhile is_word (convert_path t) = convert_path (dropWhile is_word t)"
proof (induction t)
  case Nil show ?case by simp
next
  case (Cons c t)
  show ?case
  proof (cases "is_word c")
    case True
    then have "c \<noteq> CHR ''<''" by auto
    with True Cons show ?thesis by simp
  next
    case False
    with convert_path_head_not_word [of c t] show ?thesis
      by (auto simp del: convert_path.simps)
  qed
qed

lemma convert_path_no_lt:
  "\<forall>c \<in> set g. c \<noteq> CHR ''<'' \<Longrightarrow> convert_path (g @ s) = g @ convert_path s"
  by (induction g) auto

lemma match_placeholder_groups_word:
  "match_placeholder s = Some (g1, g2, r) \<Longrightarrow> (\<forall>c \<in> set g2. is_word c)"
  by (auto simp: match_placeholder_def Let_def split: list.splits if_splits dest: set_takeWhileD)

lemma convert_path_Cons_neq_Nil: "convert_path (d # r) \<noteq> []"
  by (cases d r rule: convert_path_Cons_cases) (simp_all del: convert_path.simps)

lemma convert_path_hd:
  "convert_path (d # r) = h # u \<Longrightarrow> h = d \<or> h = CHR ''{''"
  by (cases d r rule: convert_path_Cons_cases) (simp_all del: convert_path.simps)

lemma convert_path_colon [simp]:
  "convert_path (CHR '':'' # r) = CHR '':'' # convert_path r"
  by simp

lemma match_placeholder_lt:
  "match_placeholder (CHR ''<'' # t) =
     (if takeWhile is_word t = [] then None
      else case dropWhile is_word t of
             [] \<Rightarrow> None
           | d # r2 \<Rightarrow>
               if d = CHR ''>'' then Some (takeWhile is_word t, [], r2)
               else if d = CHR '':'' then
                 (case dropWhile is_word r2 of
                    [] \<Rightarrow> None
                  | e # r4 \<Rightarrow>
                      if e = CHR ''>'' then Some (takeWhile is_word t, takeWhile is_word r2, r4)
                      else None)
               else None)"
  unfolding match_placeholder_def Let_def by simp

lemma convert_path_hd_gt:
  assumes "d \<noteq> CHR ''>''"
  shows "(case convert_path (d # r) of [] \<Rightarrow> None | e # r4 \<Rightarrow> if e = CHR ''>'' then Some (f r4) else None) = None"
proof -
  obtain h u where hu: "convert_path (d # r) = h # u"
    using convert_path_Cons_neq_Nil [of d r]
    by (cases "convert_path (d # r)") (simp_all del: convert_path.simps)
  from convert_path_hd [OF hu] assms have "h \<noteq> CHR ''>''" by auto
  with hu show ?thesis by (simp del: convert_path.simps)
qed

lemma match_placeholder_convert_None:
  assumes "match_placeholder (c # t) = None"
  shows "match_placeholder (c # convert_path t) = None"
proof (cases "c = CHR ''<''")
  case False then show ?thesis by simp
next
  case True
  note [simp del] = convert_path.simps(2) dropWhile_eq_Nil_conv
  show ?thesis
  proof (cases "takeWhile is_word t = []")
    case True
    with \<open>c = CHR ''<''\<close> show ?thesis
      by (simp add: match_placeholder_lt takeWhile_convert_path)
  next
    case w1: False
    show ?thesis
    proof (cases "dropWhile is_word t")
      case Nil
      with True w1 show ?thesis
        by (simp add: match_placeholder_lt takeWhile_convert_path dropWhile_convert_path)
    next
      case (Cons d r2)
      have dgt: "d \<noteq> CHR ''>''"
        using assms True Cons w1 by (simp add: match_placeholder_lt split: if_splits)
      show ?thesis
      proof (cases "d = CHR '':''")
        case False
        obtain h u where hu: "convert_path (d # r2) = h # u"
          using convert_path_Cons_neq_Nil [of d r2]
          by (cases "convert_path (d # r2)") simp_all
        from convert_path_hd [OF hu] dgt False
        have "h \<noteq> CHR ''>''" "h \<noteq> CHR '':''" by auto
        with True w1 Cons hu show ?thesis
          by (simp add: match_placeholder_lt takeWhile_convert_path dropWhile_convert_path)
      next
        case colon: True
        have cp: "convert_path (d # r2) = d # convert_path r2"
          using colon by (simp add: convert_path.simps)
        show ?thesis
        proof (cases "dropWhile is_word r2")
          case Nil
          with colon True w1 Cons cp show ?thesis
            by (simp add: match_placeholder_lt takeWhile_convert_path dropWhile_convert_path)
        next
          case (Cons e r4)
          have egt: "e \<noteq> CHR ''>''"
            using assms True colon Cons w1 \<open>dropWhile is_word t = d # r2\<close>
            by (simp add: match_placeholder_lt split: if_splits)
          from convert_path_hd_gt [OF egt]
          show ?thesis
            using colon True w1 Cons cp \<open>dropWhile is_word t = d # r2\<close>
            by (simp add: match_placeholder_lt takeWhile_convert_path dropWhile_convert_path)
        qed
      qed
    qed
  qed
qed

text \<open>
  C9. Path-placeholder normalization is idempotent: converting a converted path
  changes nothing, for every path template. The normalization is the
  substitution \<open>re.sub(r'<(\w+):?(\w+)?>', r'{\2}', path)\<close> of
  \<open>generate_openapi\<close> in \<open>flask-analyzer.py\<close>.
\<close>

theorem convert_path_idempotent: "convert_path (convert_path p) = convert_path p"
proof (induction p rule: convert_path.induct)
  case 1
  show ?case by simp
next
  case (2 c t)
  show ?case
  proof (cases c t rule: convert_path_Cons_cases)
    case copy
    with 2 match_placeholder_convert_None [OF copy(1)] show ?thesis by simp
  next
    case (subst g1 g2 r)
    have w: "\<forall>x \<in> set g2. x \<noteq> CHR ''<''"
      using match_placeholder_groups_word [OF subst(1)] by auto
    have "convert_path (CHR ''{'' # g2 @ CHR ''}'' # convert_path r)
          = CHR ''{'' # g2 @ CHR ''}'' # convert_path (convert_path r)"
      using convert_path_no_lt [OF w] by simp
    with 2 subst show ?thesis by simp
  qed
qed

section \<open>Aggregation: one entry for a path and a method\<close>

lemma map_of_dict_set: "map_of (dict_set d k v) = (map_of d)(k \<mapsto> v)"
  by (induction d k v rule: dict_set.induct) (auto simp: fun_eq_iff)

lemma dict_get_dict_set: "dict_get (dict_set d k v) k' = (if k' = k then Some v else dict_get d k')"
  by (simp add: dict_get_def map_of_dict_set)

lemma keys_dict_set: "fst ` set (dict_set d k v) = insert k (fst ` set d)"
  by (induction d k v rule: dict_set.induct) auto

lemma distinct_dict_set:
  "distinct (map fst d) \<Longrightarrow> distinct (map fst (dict_set d k v))"
proof (induction d k v rule: dict_set.induct)
  case (1 k v) show ?case by simp
next
  case (2 k' v' d k v)
  then show ?case using keys_dict_set [of d k v] by (auto simp: image_iff)
qed

lemma path_lookup_set_operation:
  "path_lookup (set_operation ps p m op) p' m' =
     (if p' = p \<and> m' = m then Some op else path_lookup ps p' m')"
  by (auto simp: path_lookup_def set_operation_def dict_get_def map_of_dict_set
        split: option.splits)

lemma list_all_dict_set:
  "list_all P d \<Longrightarrow> P (k, v) \<Longrightarrow> list_all P (dict_set d k v)"
  by (induction d k v rule: dict_set.induct) auto

lemma dict_get_Some_mem: "dict_get d k = Some v \<Longrightarrow> (k, v) \<in> set d"
  by (simp add: dict_get_def map_of_SomeD)

lemma unique_keys_set_operation:
  assumes "unique_keys ps"
  shows "unique_keys (set_operation ps p m op)"
proof (cases "dict_get ps p")
  case None
  with assms show ?thesis
    by (simp add: unique_keys_def set_operation_def distinct_dict_set list_all_dict_set)
next
  case (Some ms)
  from assms dict_get_Some_mem [OF Some] have "distinct (map fst ms)"
    by (auto simp: unique_keys_def list_all_iff)
  then have "distinct (map fst (dict_set ms m op))" by (rule distinct_dict_set)
  with assms Some show ?thesis
    by (simp add: unique_keys_def set_operation_def distinct_dict_set list_all_dict_set)
qed

lemma find_append:
  "find P (xs @ ys) = (case find P xs of Some x \<Rightarrow> Some x | None \<Rightarrow> find P ys)"
  by (induction xs) auto

lemma path_lookup_set_operations:
  "path_lookup (set_operations ps ents) p m =
     (case last_entry ents p m of Some op \<Rightarrow> Some op | None \<Rightarrow> path_lookup ps p m)"
proof (induction ps ents rule: set_operations.induct)
  case (1 ps)
  show ?case by (simp add: last_entry_def)
next
  case (2 ps p' m' op ents)
  show ?case
    by (auto simp: 2 last_entry_def find_append path_lookup_set_operation split: option.splits)
qed

lemma unique_keys_set_operations:
  "unique_keys ps \<Longrightarrow> unique_keys (set_operations ps ents)"
  by (induction ps ents rule: set_operations.induct) (simp_all add: unique_keys_set_operation)

lemma fa_add_endpoint_entry:
  "fa_add_endpoint ps e = Inr ps1 \<Longrightarrow>
     \<exists>p m op. fa_entry e = Some (p, m, op) \<and> ps1 = set_operation ps p m op"
  by (auto simp: fa_add_endpoint_def fa_entry_def split: pyconst.splits option.splits)

lemma flask_add_endpoint_entry:
  "flask_add_endpoint ps e = Inr ps1 \<Longrightarrow>
     \<exists>p m op. flask_entry e = Some (p, m, op) \<and> ps1 = set_operation ps p m op"
  by (auto simp: flask_add_endpoint_def flask_entry_def split: pyconst.splits)

lemma fa_paths_entries:
  "fa_paths ps es = Inr ps' \<Longrightarrow> ps' = set_operations ps (List.map_filter fa_entry es)"
proof (induction es arbitrary: ps)
  case Nil
  then show ?case by simp
next
  case (Cons e es)
  from Cons.prems obtain ps1 where
    s1: "fa_add_endpoint ps e = Inr ps1" and s2: "fa_paths ps1 es = Inr ps'"
    by (auto split: sum.splits)
  from fa_add_endpoint_entry [OF s1] obtain p m op where
    "fa_entry e = Some (p, m, op)" "ps1 = set_operation ps p m op" by blast
  with Cons.IH [OF s2] show ?case by simp
qed

lemma flask_paths_entries:
  "flask_paths ps es = Inr ps' \<Longrightarrow> ps' = set_operations ps (List.map_filter flask_entry es)"
proof (induction es arbitrary: ps)
  case Nil
  then show ?case by simp
next
  case (Cons e es)
  from Cons.prems obtain ps1 where
    s1: "flask_add_endpoint ps e = Inr ps1" and s2: "flask_paths ps1 es = Inr ps'"
    by (auto split: sum.splits)
  from flask_add_endpoint_entry [OF s1] obtain p m op where
    "flask_entry e = Some (p, m, op)" "ps1 = set_operation ps p m op" by blast
  with Cons.IH [OF s2] show ?case by simp
qed

lemma path_lookup_Nil: "path_lookup [] p m = None"
  by (simp add: path_lookup_def dict_get_def)

lemma unique_keys_Nil: "unique_keys []"
  by (simp add: unique_keys_def)

text \<open>
  C1, as amended. \<open>generate_openapi\<close> of the FastAPI and of the Flask analyzer keeps,
  for every path and lower-case method, exactly one entry: the operation of the
  last endpoint declared for that pair. A later declaration replaces an earlier
  one; the document, which is all the function returns, has no place for a
  conflict. Duplicates with equal content therefore leave one entry with that
  content.
\<close>

theorem last_declaration_wins:
  "(fa_generate_openapi i eps sch = Inr doc \<longrightarrow>
      path_lookup (doc_paths doc) p m = last_entry (List.map_filter fa_entry eps) p m
      \<and> unique_keys (doc_paths doc))
   \<and> (flask_generate_openapi i fes sch = Inr fdoc \<longrightarrow>
      path_lookup (doc_paths fdoc) p m = last_entry (List.map_filter flask_entry fes) p m
      \<and> unique_keys (doc_paths fdoc))"
proof (intro conjI impI)
  assume "fa_generate_openapi i eps sch = Inr doc"
  then have ps: "fa_paths [] eps = Inr (doc_paths doc)"
    by (auto simp: fa_generate_openapi_def split: sum.splits)
  from fa_paths_entries [OF ps]
  have eq: "doc_paths doc = set_operations [] (List.map_filter fa_entry eps)" by simp
  show "path_lookup (doc_paths doc) p m = last_entry (List.map_filter fa_entry eps) p m"
    by (simp add: eq path_lookup_set_operations path_lookup_Nil split: option.splits)
  show "unique_keys (doc_paths doc)"
    by (simp add: eq unique_keys_set_operations unique_keys_Nil)
next
  assume "flask_generate_openapi i fes sch = Inr fdoc"
  then have ps: "flask_paths [] fes = Inr (doc_paths fdoc)"
    by (auto simp: flask_generate_openapi_def split: sum.splits)
  from flask_paths_entries [OF ps]
  have eq: "doc_paths fdoc = set_operations [] (List.map_filter flask_entry fes)" by simp
  show "path_lookup (doc_paths fdoc) p m = last_entry (List.map_filter flask_entry fes) p m"
    by (simp add: eq path_lookup_set_operations path_lookup_Nil split: option.splits)
  show "unique_keys (doc_paths fdoc)"
    by (simp add: eq unique_keys_set_operations unique_keys_Nil)
qed


lemma lower_GET: "lower ''GET'' = ''get''"
  by code_simp

lemma fa_generate_ping:
  "fa_generate_openapi None [ping a, ping b] [] =
     Inr \<lparr>openapi = ''3.0.0'', doc_info = fa_default_info,
          doc_paths = [(''/ping'', [(''get'', fa_operation ''GET'' ''/ping'' (ping b))])],
          components_schemas = []\<rparr>"
  by (simp add: fa_generate_openapi_def fa_add_endpoint_def set_operation_def dict_get_def
        ping_def lower_GET)

lemma flask_generate_ping:
  "flask_generate_openapi None [flask_ping a, flask_ping b] [] =
     Inr \<lparr>openapi = ''3.0.0'', doc_info = flask_default_info,
          doc_paths = [(''/ping'', [(''get'', flask_operation ''/ping'' (flask_ping b))])],
          components_schemas = []\<rparr>"
  by (simp add: flask_generate_openapi_def flask_add_endpoint_def set_operation_def dict_get_def
        flask_ping_def lower_GET)

text \<open>
  C1 as stated fails: of two declarations of \<open>GET /ping\<close> that differ in their
  summary, the document holds the second one, and it holds nothing else.
\<close>

theorem first_seen_not_retained:
  "fa_generate_openapi None [ping ''first'', ping ''second''] [] =
     Inr \<lparr>openapi = ''3.0.0'', doc_info = fa_default_info,
          doc_paths = [(''/ping'', [(''get'', fa_operation ''GET'' ''/ping'' (ping ''second''))])],
          components_schemas = []\<rparr>
   \<and> fa_operation ''GET'' ''/ping'' (ping ''second'') \<noteq> fa_operation ''GET'' ''/ping'' (ping ''first'')"
  by (simp add: fa_generate_ping) (simp add: fa_operation_def ping_def)

theorem last_declaration_wins_witness:
  "fa_generate_openapi None [ping ''first'', ping ''second''] [] =
     Inr \<lparr>openapi = ''3.0.0'', doc_info = fa_default_info,
          doc_paths = [(''/ping'', [(''get'', fa_operation ''GET'' ''/ping'' (ping ''second''))])],
          components_schemas = []\<rparr>
   \<and> path_lookup [(''/ping'', [(''get'', fa_operation ''GET'' ''/ping'' (ping ''second''))])]
        ''/ping'' ''get''
      = last_entry (List.map_filter fa_entry [ping ''first'', ping ''second'']) ''/ping'' ''get''
   \<and> last_entry (List.map_filter fa_entry [ping ''first'', ping ''second'']) ''/ping'' ''get''
      = Some (fa_operation ''GET'' ''/ping'' (ping ''second''))
   \<and> flask_generate_openapi None [flask_ping ''First'', flask_ping ''Second''] [] =
     Inr \<lparr>openapi = ''3.0.0'', doc_info = flask_default_info,
          doc_paths = [(''/ping'', [(''get'', flask_operation ''/ping'' (flask_ping ''Second''))])],
          components_schemas = []\<rparr>
   \<and> path_lookup [(''/ping'', [(''get'', flask_operation ''/ping'' (flask_ping ''Second''))])]
        ''/ping'' ''get''
      = last_entry (List.map_filter flask_entry [flask_ping ''First'', flask_ping ''Second''])
          ''/ping'' ''get''
   \<and> last_entry (List.map_filter flask_entry [flask_ping ''First'', flask_ping ''Second''])
          ''/ping'' ''get''
      = Some (flask_operation ''/ping'' (flask_ping ''Second''))"
  using last_declaration_wins
    [of None "[ping ''first'', ping ''second'']" "[]"
        "\<lparr>openapi = ''3.0.0'', doc_info = fa_default_info,
          doc_paths = [(''/ping'', [(''get'', fa_operation ''GET'' ''/ping'' (ping ''second''))])],
          components_schemas = []\<rparr>"
        "''/ping''" "''get''"
        "[flask_ping ''First'', flask_ping ''Second'']"
        "\<lparr>openapi = ''3.0.0'', doc_info = flask_default_info,
          doc_paths = [(''/ping'', [(''get'', flask_operation ''/ping'' (flask_ping ''Second''))])],
          components_schemas = []\<rparr>"]
  by (simp add: fa_generate_ping flask_generate_ping)
     (simp add: last_entry_def fa_entry_def flask_entry_def ping_def
        flask_ping_def lower_GET)

section \<open>Flask: the path key of a converted route\<close>

lemma findall_item_id: "findall_placeholders ''/items/<int:item_id>'' = [(''int'', ''item_id'')]"
  by code_simp

lemma convert_item_id: "convert_path ''/items/<int:item_id>'' = ''/items/{item_id}''"
  by code_simp

lemma flask_type_int: "flask_type_to_openapi ''int'' = ''integer''"
  by code_simp

lemma replace_item_id:
  "replace_char CHR ''/'' CHR ''-'' ''/items/<int:item_id>'' = ''-items-<int:item_id>''"
  by (simp add: replace_char_def)

text \<open>
  C2. For a Flask endpoint whose route path is \<open>/items/<int:item_id>\<close> the claim
  asks for the path \<open>/items/{item_id}\<close> in the document. The code computes that
  string (\<open>converted_path\<close>) and then stores the operation under the unconverted
  \<open>endpoint['path']\<close>: for every such endpoint the only key of \<open>paths\<close> is
  \<open>/items/<int:item_id>\<close>. The parameter is as the claim says: \<open>item_id\<close>, in the
  path, required, of type integer.
\<close>

theorem flask_path_key_not_converted:
  "flask_generate_openapi None [e\<lparr>fe_path := CStr ''/items/<int:item_id>''\<rparr>] [] =
     Inr \<lparr>openapi = ''3.0.0'', doc_info = flask_default_info,
          doc_paths =
            [(''/items/<int:item_id>'',
              [(lower (fe_method e),
                \<lparr>op_summary = CStr (fe_summary e), op_description = fe_description e,
                 op_operationId = lower (fe_method e) @ ''-items-<int:item_id>'',
                 op_responses =
                   [(''200'', \<lparr>r_description = ''Successful response'',
                              r_content_schema = None\<rparr>)],
                 op_parameters =
                   Some [\<lparr>p_name = ''item_id'', p_in = ''path'', p_required = True,
                          p_schema = Schema ''integer'' None False None\<rparr>],
                 op_requestBody = None, op_tags = None, op_security = None\<rparr>)])],
          components_schemas = []\<rparr>
   \<and> convert_path ''/items/<int:item_id>'' = ''/items/{item_id}''"
  by (simp add: flask_generate_openapi_def flask_add_endpoint_def set_operation_def dict_get_def
        flask_operation_def Let_def findall_item_id convert_item_id flask_path_parameter_def
        flask_type_int non_empty_def replace_item_id
        del: findall_placeholders.simps convert_path.simps)

section \<open>FastAPI: the router prefix\<close>

lemma upper_get: "upper ''get'' = ''GET''"
  by code_simp

text \<open>
  C5. The claim asks that the prefix of a router be prepended to the path of
  every route registered on it. In the code the prefix of
  \<open>router = APIRouter(prefix="/api")\<close> is never read (the visitor has no method for
  assignments) and the route keeps the path \<open>/items\<close>; for a class decorated with
  \<open>@router(prefix="/api")\<close> the prefix is stored in \<open>router_prefix\<close> and the path is
  \<open>/items\<close> all the same; and a route inside a class makes the visit raise
  \<open>AttributeError\<close>, so that the file gives no endpoint at all.
\<close>

theorem router_prefix_not_prepended:
  "map_sum id (\<lambda>v. (v_router_prefix v, map ep_path (v_endpoints v)))
     (visit_body (new_visitor ''app.py'' src) router_module) = Inr (CStr [], [CStr ''/items''])
   \<and> map_sum id (\<lambda>v. (v_router_prefix v, map ep_path (v_endpoints v)))
     (visit_body (new_visitor ''app.py'' src) class_then_route) = Inr (CStr ''/api'', [CStr ''/items''])
   \<and> visit_body (new_visitor ''app.py'' src) route_in_class = Inl AttributeError"
  by (simp add: router_module_def class_then_route_def route_in_class_def new_visitor_def
        visit_FunctionDef_def list_items_def http_verbs_def parse_route_decorator_def
        decorator_path_def extract_parameters_def upper_get)


section \<open>Spring: carrier parameters\<close>

lemma profile_signature:
  "parse_method_signature (drop 1 profile_lines) =
     \<lparr>sig_parameters = [(''request'', ''HttpServletRequest''), (''model'', ''Model'')],
      sig_return_type = ''String''\<rparr>"
  by code_simp

text \<open>
  C7. The claim asks that parameters whose type is a carrier object never reach
  the endpoint's parameter list. \<open>_parse_method_signature\<close> compares the
  parameter's name, not its type, with the carrier names: for
  \<open>profile(HttpServletRequest request, Model model)\<close> both parameters are emitted, as
  query parameters of type \<open>object\<close>.
\<close>

theorem carrier_parameters_emitted:
  "parse_endpoint_annotation profile_lines 0 ''Get'' ''ProfileController.java''
     \<lparr>base_path = None, is_rest_controller = True\<rparr> =
     Inr \<lparr>se_method = ''GET'', se_path = ''/profile'', se_file = ''ProfileController.java'',
          se_line = 1,
          se_parameters =
            [\<lparr>sp_name = ''request'', sp_in = ''query'', sp_type = ''object''\<rparr>,
             \<lparr>sp_name = ''model'', sp_in = ''query'', sp_type = ''object''\<rparr>],
          se_responses =
            [(''200'', \<lparr>r_description = ''Successful response'',
                       r_content_schema = Some (Schema ''string'' None False None)\<rparr>)]\<rparr>"
  by code_simp

section \<open>FastAPI: path parameters\<close>

lemma map_of_zip_KArg: "map_of (zip (map KArg xs) ys) (KStr n) = None"
  by (auto simp: map_of_eq_None_iff dest!: set_zip_leftD)

lemma defaults_dict_no_string: "map_of (defaults_dict fd) (KStr n) = None"
  by (simp add: defaults_dict_def Let_def map_of_zip_KArg)

lemma get_route_decorator_mem:
  "get_route_decorator ds = Some (f, as, kws, ln) \<Longrightarrow> Call f as kws ln \<in> set ds"
  by (induction ds) (auto split: expr.splits if_splits)

lemma placeholder_found:
  "placeholder_in_decorators n ds = Inr b \<Longrightarrow>
   Call f (Constant (CStr p) # as) kws ln \<in> set ds \<Longrightarrow>
   str_in (''{'' @ n @ ''}'') p \<Longrightarrow> b"
proof (induction ds arbitrary: b)
  case Nil
  then show ?case by simp
next
  case (Cons d ds)
  then show ?case
    by (auto split: expr.splits list.splits pyconst.splits sum.splits)
qed

lemma make_parameter_name: "make_parameter fd a = Inr p \<Longrightarrow> p_name p = arg a"
  by (auto simp: make_parameter_def Let_def defaults_dict_no_string
        split: sum.splits option.splits if_splits)

lemma make_parameter_required:
  "make_parameter fd a = Inr p \<Longrightarrow> \<not> self_or_cls (arg a) \<Longrightarrow> p_required p"
  by (auto simp: make_parameter_def Let_def defaults_dict_no_string
        split: sum.splits option.splits if_splits)

lemma make_parameter_in:
  "make_parameter fd a = Inr p \<Longrightarrow>
   placeholder_in_decorators (arg a) (fd_decorator_list fd) = Inr True \<Longrightarrow> p_in p = ''path''"
  by (auto simp: make_parameter_def Let_def defaults_dict_no_string
        split: sum.splits option.splits if_splits)

lemma make_parameter_Inr:
  "make_parameter fd a = Inr p \<Longrightarrow> \<exists>b. placeholder_in_decorators (arg a) (fd_decorator_list fd) = Inr b"
  by (auto simp: make_parameter_def split: sum.splits)

lemma extract_parameters_loop_from:
  "extract_parameters_loop fd as = Inr ps \<Longrightarrow> p \<in> set ps \<Longrightarrow>
     \<exists>a \<in> set as. \<not> self_or_cls (arg a) \<and> make_parameter fd a = Inr p"
proof (induction as arbitrary: ps)
  case Nil
  then show ?case by simp
next
  case (Cons a as)
  then show ?case by (fastforce split: if_splits sum.splits)
qed

lemma extract_parameters_loop_names:
  "extract_parameters_loop fd as = Inr ps \<Longrightarrow>
     map p_name ps = filter (\<lambda>n. \<not> self_or_cls n) (map arg as)"
proof (induction as arbitrary: ps)
  case Nil
  then show ?case by simp
next
  case (Cons a as)
  then show ?case by (auto split: if_splits sum.splits dest: make_parameter_name)
qed

lemma visit_FunctionDef_endpoint:
  assumes "visit_FunctionDef v fd = Inr v'"
    and "get_route_decorator (fd_decorator_list fd) = Some (f, as, kws, ln)"
  shows "\<exists>ep ps. v_endpoints v' = v_endpoints v @ [ep] \<and> ep_path ep = decorator_path as
           \<and> extract_parameters fd = Inr ps \<and> ep_parameters ep = ps
           \<and> ep_method ep = fst (parse_route_decorator (v_content v) (f, as, kws, ln))"
  using assms
  by (auto simp: visit_FunctionDef_def parse_route_decorator_def Let_def
        split: prod.splits if_splits sum.splits)

text \<open>
  C3. When the FastAPI visitor emits the endpoint of a function whose route
  decorator has the literal path \<open>path\<close>, the endpoint's parameters are the
  function's arguments other than \<open>self\<close> and \<open>cls\<close>, in order, and every parameter
  whose name occurs in \<open>path\<close> as \<open>{name}\<close> has location \<open>path\<close> and is required.
  Nothing is assumed about default values: the lookup of the argument's name
  among the defaults never succeeds, because the keys of that dictionary are
  \<open>ast.arg\<close> nodes.
\<close>

theorem path_parameters_required:
  assumes "visit_FunctionDef v fd = Inr v'"
    and "get_route_decorator (fd_decorator_list fd) = Some (f, Constant (CStr path) # as, kws, ln)"
    and "str_in (''{'' @ name @ ''}'') path"
  shows "\<exists>ep. v_endpoints v' = v_endpoints v @ [ep] \<and> ep_path ep = CStr path
           \<and> map p_name (ep_parameters ep) = filter (\<lambda>n. \<not> self_or_cls n) (map arg (fd_args fd))
           \<and> (\<forall>p \<in> set (ep_parameters ep). p_name p = name \<longrightarrow> p_in p = ''path'' \<and> p_required p)"
proof -
  from visit_FunctionDef_endpoint [OF assms(1,2)] obtain ep ps where
    ep: "v_endpoints v' = v_endpoints v @ [ep]" "ep_path ep = CStr path"
        "extract_parameters fd = Inr ps" "ep_parameters ep = ps"
    by (auto simp: decorator_path_def)
  have loop: "extract_parameters_loop fd (fd_args fd) = Inr ps"
    using ep(3) by (simp add: extract_parameters_def)
  have "p_in p = ''path'' \<and> p_required p" if "p \<in> set ps" "p_name p = name" for p
  proof -
    from extract_parameters_loop_from [OF loop that(1)] obtain a where
      a: "\<not> self_or_cls (arg a)" "make_parameter fd a = Inr p" by blast
    from make_parameter_name [OF a(2)] that(2) have n: "arg a = name" by simp
    from make_parameter_Inr [OF a(2)] obtain b where
      b: "placeholder_in_decorators (arg a) (fd_decorator_list fd) = Inr b" by blast
    from placeholder_found [OF b get_route_decorator_mem [OF assms(2)]] assms(3) n
    have "b" by simp
    with b make_parameter_in [OF a(2)] make_parameter_required [OF a(2) a(1)]
    show ?thesis by simp
  qed
  with ep extract_parameters_loop_names [OF loop] show ?thesis by auto
qed

lemma get_user_visited:
  "visit_FunctionDef (new_visitor ''app.py'' []) get_user =
     Inr \<lparr>v_file_path = ''app.py'', v_content = [],
          v_endpoints =
            [\<lparr>ep_method = Some ''GET'', ep_path = CStr ''/users/{id}'', ep_file = ''app.py'',
              ep_line = 2, ep_function = ''get_user'', ep_summary = CNone,
              ep_description = CNone, ep_tags = [],
              ep_parameters =
                [\<lparr>p_name = ''id'', p_in = ''path'', p_required = True,
                  p_schema = Schema ''integer'' None False None\<rparr>,
                 \<lparr>p_name = ''verbose'', p_in = ''query'', p_required = True,
                  p_schema = Schema ''boolean'' None False None\<rparr>],
              ep_responses =
                [(''200'', \<lparr>r_description = ''Successful Response'', r_content_schema = None\<rparr>)],
              ep_request_body =
                Some \<lparr>rb_schema_ref = ''#/components/schemas/int'', rb_required = True\<rparr>,
              ep_security = []\<rparr>],
          v_schemas = [], v_current_class = None, v_router_prefix = CStr []\<rparr>"
  by code_simp

lemma get_user_decorator:
  "get_route_decorator (fd_decorator_list get_user) =
     Some (Attribute (Name ''app'') ''get'', Constant (CStr ''/users/{id}'') # [], [], 1)"
  by code_simp

lemma id_in_path: "str_in (''{'' @ ''id'' @ ''}'') ''/users/{id}''"
  by code_simp

text \<open>
  The theorem at \<open>get_user\<close>, whose path parameter \<open>id\<close> has the default value 5.
\<close>

theorem path_parameters_required_witness:
  "fd_defaults get_user = [Constant (CInt 5), Constant (CBool False)]
   \<and> (\<exists>ep. [\<lparr>ep_method = Some ''GET'', ep_path = CStr ''/users/{id}'', ep_file = ''app.py'',
              ep_line = 2, ep_function = ''get_user'', ep_summary = CNone,
              ep_description = CNone, ep_tags = [],
              ep_parameters =
                [\<lparr>p_name = ''id'', p_in = ''path'', p_required = True,
                  p_schema = Schema ''integer'' None False None\<rparr>,
                 \<lparr>p_name = ''verbose'', p_in = ''query'', p_required = True,
                  p_schema = Schema ''boolean'' None False None\<rparr>],
              ep_responses =
                [(''200'', \<lparr>r_description = ''Successful Response'', r_content_schema = None\<rparr>)],
              ep_request_body =
                Some \<lparr>rb_schema_ref = ''#/components/schemas/int'', rb_required = True\<rparr>,
              ep_security = []\<rparr>] = [ep]
          \<and> ep_path ep = CStr ''/users/{id}''
          \<and> map p_name (ep_parameters ep) = [''id'', ''verbose'']
          \<and> (\<forall>p \<in> set (ep_parameters ep). p_name p = ''id'' \<longrightarrow> p_in p = ''path'' \<and> p_required p))"
proof -
  from path_parameters_required [OF get_user_visited get_user_decorator id_in_path]
  obtain ep where
    ep: "v_endpoints \<lparr>v_file_path = ''app.py'', v_content = [],
          v_endpoints =
            [\<lparr>ep_method = Some ''GET'', ep_path = CStr ''/users/{id}'', ep_file = ''app.py'',
              ep_line = 2, ep_function = ''get_user'', ep_summary = CNone,
              ep_description = CNone, ep_tags = [],
              ep_parameters =
                [\<lparr>p_name = ''id'', p_in = ''path'', p_required = True,
                  p_schema = Schema ''integer'' None False None\<rparr>,
                 \<lparr>p_name = ''verbose'', p_in = ''query'', p_required = True,
                  p_schema = Schema ''boolean'' None False None\<rparr>],
              ep_responses =
                [(''200'', \<lparr>r_description = ''Successful Response'', r_content_schema = None\<rparr>)],
              ep_request_body =
                Some \<lparr>rb_schema_ref = ''#/components/schemas/int'', rb_required = True\<rparr>,
              ep_security = []\<rparr>],
          v_schemas = [], v_current_class = None, v_router_prefix = CStr []\<rparr>
         = v_endpoints (new_visitor ''app.py'' []) @ [ep]"
      "ep_path ep = CStr ''/users/{id}''"
      "map p_name (ep_parameters ep)
         = filter (\<lambda>n. \<not> self_or_cls n) (map arg (fd_args get_user))"
      "\<forall>p \<in> set (ep_parameters ep). p_name p = ''id'' \<longrightarrow> p_in p = ''path'' \<and> p_required p"
    by blast
  have names: "filter (\<lambda>n. \<not> self_or_cls n) (map arg (fd_args get_user)) = [''id'', ''verbose'']"
    by code_simp
  have d: "fd_defaults get_user = [Constant (CInt 5), Constant (CBool False)]"
    by (simp add: get_user_def)
  from ep(1) have "[\<lparr>ep_method = Some ''GET'', ep_path = CStr ''/users/{id}'', ep_file = ''app.py'',
              ep_line = 2, ep_function = ''get_user'', ep_summary = CNone,
              ep_description = CNone, ep_tags = [],
              ep_parameters =
                [\<lparr>p_name = ''id'', p_in = ''path'', p_required = True,
                  p_schema = Schema ''integer'' None False None\<rparr>,
                 \<lparr>p_name = ''verbose'', p_in = ''query'', p_required = True,
                  p_schema = Schema ''boolean'' None False None\<rparr>],
              ep_responses =
                [(''200'', \<lparr>r_description = ''Successful Response'', r_content_schema = None\<rparr>)],
              ep_request_body =
                Some \<lparr>rb_schema_ref = ''#/components/schemas/int'', rb_required = True\<rparr>,
              ep_security = []\<rparr>] = [ep]"
    by (simp add: new_visitor_def)
  with ep(2,3,4) names d show ?thesis by (intro conjI exI [of _ ep]) simp_all
qed

section \<open>Spring: composing the base path\<close>

lemma rstrip_chars_decompose:
  "\<exists>t. s = rstrip_chars P s @ t \<and> (\<forall>c \<in> set t. P c)
       \<and> (rstrip_chars P s = [] \<or> \<not> P (last (rstrip_chars P s)))"
proof -
  let ?r = "rev s"
  have "s = rev (dropWhile P ?r) @ rev (takeWhile P ?r)"
    by (metis rev_append rev_rev_ident takeWhile_dropWhile_id)
  moreover have "\<forall>c \<in> set (rev (takeWhile P ?r)). P c"
    by (auto dest: set_takeWhileD)
  moreover have "dropWhile P ?r = [] \<or> \<not> P (last (rev (dropWhile P ?r)))"
    by (cases "dropWhile P ?r = []") (simp_all add: last_rev hd_dropWhile)
  ultimately show ?thesis
    unfolding rstrip_chars_def by (intro exI [of _ "rev (takeWhile P ?r)"]) auto
qed

lemma all_slash_replicate:
  "(\<forall>c \<in> set t. c = x) \<Longrightarrow> t = replicate (length t) x"
  by (induction t) auto

lemma parse_endpoint_annotation_path:
  "parse_endpoint_annotation lines i mt fp cl = Inr ep \<Longrightarrow>
     se_path ep = full_path cl (annotation_path lines i)"
  by (auto simp: parse_endpoint_annotation_def Let_def split: sum.splits)

text \<open>
  What \<open>base.rstrip('/') + path\<close> gets right: for a method-level path that begins
  with exactly one slash, the path of the endpoint is the class's base path
  without its trailing slashes, followed by the method's path.
\<close>

lemma full_path_single_slash:
  assumes "parse_endpoint_annotation lines i mt fp cl = Inr ep"
    and "annotation_path lines i = CHR ''/'' # q"
    and "\<not> starts_with q ''/''"
  shows "case base_path cl of
           None \<Rightarrow> se_path ep = CHR ''/'' # q
         | Some b \<Rightarrow>
             \<exists>b' k. b = b' @ replicate k CHR ''/'' \<and> (b' = [] \<or> last b' \<noteq> CHR ''/'')
                \<and> se_path ep = b' @ CHR ''/'' # q"
proof (cases "base_path cl")
  case None
  with parse_endpoint_annotation_path [OF assms(1)] assms(2) show ?thesis
    by (simp add: full_path_def)
next
  case (Some b)
  let ?P = "\<lambda>c. c = CHR ''/''"
  from rstrip_chars_decompose [of b ?P] obtain t where
    t: "b = rstrip_chars ?P b @ t" "\<forall>c \<in> set t. c = CHR ''/''"
       "rstrip_chars ?P b = [] \<or> last (rstrip_chars ?P b) \<noteq> CHR ''/''"
    by blast
  from all_slash_replicate [OF t(2)] have rep: "t = replicate (length t) CHR ''/''" .
  have p: "se_path ep = rstrip_chars ?P b @ CHR ''/'' # q"
    using parse_endpoint_annotation_path [OF assms(1)] Some assms(2)
    by (cases "b = []") (simp_all add: full_path_def rstrip_chars_def)
  have "b = rstrip_chars ?P b @ replicate (length t) CHR ''/''"
    using t(1) rep by simp
  with t(3) p Some show ?thesis by auto
qed

text \<open>
  C6 does not hold of the code. The unified path is
  \<open>class_level['base_path'].rstrip('/') + path\<close>: the trailing slashes of the base
  path are removed, and nothing looks at the start of the method path. Under the
  class-level \<open>@RequestMapping(value = "/api/v1")\<close> the mapping
  \<open>@GetMapping("/widgets")\<close> gives \<open>/api/v1/widgets\<close>, but \<open>@GetMapping("widgets")\<close>
  gives \<open>/api/v1widgets\<close>, with no separating slash, and \<open>@GetMapping("//widgets")\<close>
  gives \<open>/api/v1//widgets\<close>, with a doubled one. (The first endpoint of each file
  comes from the class's own \<open>@RequestMapping\<close> line, which the line scan reads as
  a mapping too.)
\<close>

theorem missing_separator:
  "map se_path (fst (parse_java_file ''WidgetController.java'' (widget_source ''/widgets'')))
     = [''/api/v1/api/v1'', ''/api/v1/widgets'']
   \<and> map se_path (fst (parse_java_file ''WidgetController.java'' (widget_source ''widgets'')))
     = [''/api/v1/api/v1'', ''/api/v1widgets'']
   \<and> map se_path (fst (parse_java_file ''WidgetController.java'' (widget_source ''//widgets'')))
     = [''/api/v1/api/v1'', ''/api/v1//widgets'']"
  by code_simp

section \<open>A file that fails to parse\<close>

lemma analyze_file_failed:
  "visit_file parse f = Inl e \<Longrightarrow>
     analyze_file parse a f = a\<lparr>a_log := a_log a @ [warning_for e (fst f)]\<rparr>"
  by (simp add: analyze_file_def)

lemma flask_analyze_file_failed:
  "flask_visit_file parse f = Inl e \<Longrightarrow>
     flask_analyze_file parse a f = a\<lparr>fl_log := fl_log a @ [warning_for e (fst f)]\<rparr>"
  by (simp add: flask_analyze_file_def)

lemma analyze_file_facts_cong:
  "a_endpoints a = a_endpoints a' \<Longrightarrow> a_schemas a = a_schemas a' \<Longrightarrow>
     a_endpoints (analyze_file parse a f) = a_endpoints (analyze_file parse a' f)
     \<and> a_schemas (analyze_file parse a f) = a_schemas (analyze_file parse a' f)"
  by (simp add: analyze_file_def split: sum.splits)

lemma foldl_analyze_file_facts_cong:
  "a_endpoints a = a_endpoints a' \<Longrightarrow> a_schemas a = a_schemas a' \<Longrightarrow>
     a_endpoints (foldl (analyze_file parse) a fs) = a_endpoints (foldl (analyze_file parse) a' fs)
     \<and> a_schemas (foldl (analyze_file parse) a fs) = a_schemas (foldl (analyze_file parse) a' fs)"
proof (induction fs arbitrary: a a')
  case Nil
  then show ?case by simp
next
  case (Cons f fs)
  from analyze_file_facts_cong [OF Cons.prems, of parse f]
  have "a_endpoints (analyze_file parse a f) = a_endpoints (analyze_file parse a' f)"
    and "a_schemas (analyze_file parse a f) = a_schemas (analyze_file parse a' f)"
    by simp_all
  from Cons.IH [OF this] show ?case by simp
qed

lemma analyze_file_log_grows: "set (a_log a) \<subseteq> set (a_log (analyze_file parse a f))"
  by (auto simp: analyze_file_def split: sum.splits)

lemma foldl_analyze_file_log_grows:
  "set (a_log a) \<subseteq> set (a_log (foldl (analyze_file parse) a fs))"
proof (induction fs arbitrary: a)
  case Nil
  show ?case by simp
next
  case (Cons f fs)
  from analyze_file_log_grows [of a parse f] Cons [of "analyze_file parse a f"]
  show ?case by auto
qed

lemma flask_analyze_file_facts_cong:
  "fl_endpoints a = fl_endpoints a' \<Longrightarrow> fl_schemas a = fl_schemas a' \<Longrightarrow>
   fl_blueprints a = fl_blueprints a' \<Longrightarrow>
     fl_endpoints (flask_analyze_file parse a f) = fl_endpoints (flask_analyze_file parse a' f)
     \<and> fl_schemas (flask_analyze_file parse a f) = fl_schemas (flask_analyze_file parse a' f)
     \<and> fl_blueprints (flask_analyze_file parse a f) = fl_blueprints (flask_analyze_file parse a' f)"
  by (simp add: flask_analyze_file_def split: sum.splits)

lemma foldl_flask_analyze_file_facts_cong:
  "fl_endpoints a = fl_endpoints a' \<Longrightarrow> fl_schemas a = fl_schemas a' \<Longrightarrow>
   fl_blueprints a = fl_blueprints a' \<Longrightarrow>
     fl_endpoints (foldl (flask_analyze_file parse) a fs)
       = fl_endpoints (foldl (flask_analyze_file parse) a' fs)
     \<and> fl_schemas (foldl (flask_analyze_file parse) a fs)
       = fl_schemas (foldl (flask_analyze_file parse) a' fs)
     \<and> fl_blueprints (foldl (flask_analyze_file parse) a fs)
       = fl_blueprints (foldl (flask_analyze_file parse) a' fs)"
proof (induction fs arbitrary: a a')
  case Nil
  then show ?case by simp
next
  case (Cons f fs)
  from flask_analyze_file_facts_cong [OF Cons.prems, of parse f]
  have "fl_endpoints (flask_analyze_file parse a f) = fl_endpoints (flask_analyze_file parse a' f)"
    and "fl_schemas (flask_analyze_file parse a f) = fl_schemas (flask_analyze_file parse a' f)"
    and "fl_blueprints (flask_analyze_file parse a f) = fl_blueprints (flask_analyze_file parse a' f)"
    by simp_all
  from Cons.IH [OF this] show ?case by simp
qed

lemma flask_analyze_file_log_grows: "set (fl_log a) \<subseteq> set (fl_log (flask_analyze_file parse a f))"
  by (auto simp: flask_analyze_file_def split: sum.splits)

lemma foldl_flask_analyze_file_log_grows:
  "set (fl_log a) \<subseteq> set (fl_log (foldl (flask_analyze_file parse) a fs))"
proof (induction fs arbitrary: a)
  case Nil
  show ?case by simp
next
  case (Cons f fs)
  from flask_analyze_file_log_grows [of a parse f] Cons [of "flask_analyze_file parse a f"]
  show ?case by auto
qed

lemma analyze_skips_failed:
  assumes "visit_file parse f = Inl e"
  shows "a_endpoints (analyze parse (before @ f # after)) = a_endpoints (analyze parse (before @ after))"
    and "a_schemas (analyze parse (before @ f # after)) = a_schemas (analyze parse (before @ after))"
    and "warning_for e (fst f) \<in> set (a_log (analyze parse (before @ f # after)))"
proof -
  let ?s = "foldl (analyze_file parse) new_analyzer before"
  have s': "analyze_file parse ?s f = ?s\<lparr>a_log := a_log ?s @ [warning_for e (fst f)]\<rparr>"
    using assms by (rule analyze_file_failed)
  from foldl_analyze_file_facts_cong [of "analyze_file parse ?s f" ?s parse after]
  show "a_endpoints (analyze parse (before @ f # after)) = a_endpoints (analyze parse (before @ after))"
    and "a_schemas (analyze parse (before @ f # after)) = a_schemas (analyze parse (before @ after))"
    by (simp_all add: analyze_def s')
  from foldl_analyze_file_log_grows [of "analyze_file parse ?s f" parse after]
  show "warning_for e (fst f) \<in> set (a_log (analyze parse (before @ f # after)))"
    by (auto simp: analyze_def s')
qed

lemma flask_analyze_skips_failed:
  assumes "flask_visit_file parse f = Inl e"
  shows "fl_endpoints (flask_analyze parse (before @ f # after))
           = fl_endpoints (flask_analyze parse (before @ after))"
    and "fl_schemas (flask_analyze parse (before @ f # after))
           = fl_schemas (flask_analyze parse (before @ after))"
    and "fl_blueprints (flask_analyze parse (before @ f # after))
           = fl_blueprints (flask_analyze parse (before @ after))"
    and "warning_for e (fst f) \<in> set (fl_log (flask_analyze parse (before @ f # after)))"
proof -
  let ?s = "foldl (flask_analyze_file parse) new_flask_analyzer before"
  have s': "flask_analyze_file parse ?s f = ?s\<lparr>fl_log := fl_log ?s @ [warning_for e (fst f)]\<rparr>"
    using assms by (rule flask_analyze_file_failed)
  from foldl_flask_analyze_file_facts_cong [of "flask_analyze_file parse ?s f" ?s parse after]
  show "fl_endpoints (flask_analyze parse (before @ f # after))
           = fl_endpoints (flask_analyze parse (before @ after))"
    and "fl_schemas (flask_analyze parse (before @ f # after))
           = fl_schemas (flask_analyze parse (before @ after))"
    and "fl_blueprints (flask_analyze parse (before @ f # after))
           = fl_blueprints (flask_analyze parse (before @ after))"
    by (simp_all add: flask_analyze_def s')
  from foldl_flask_analyze_file_log_grows [of "flask_analyze_file parse ?s f" parse after]
  show "warning_for e (fst f) \<in> set (fl_log (flask_analyze parse (before @ f # after)))"
    by (auto simp: flask_analyze_def s')
qed

text \<open>
  C8. A file on which \<open>ast.parse\<close> raises adds no endpoint, no schema (and, for
  Flask, no blueprint) to the analyzer and appends one warning to its log;
  \<open>analyze\<close> goes on with the next file, and the run over a list of files that
  holds the file gives what the run without the file gives, the same document
  when that run gives one.
\<close>

theorem unparseable_file_contributes_nothing:
  assumes "parse content = Inl e"
  shows "a_endpoints (analyze_file parse a (file_path, Some content)) = a_endpoints a
       \<and> a_schemas (analyze_file parse a (file_path, Some content)) = a_schemas a
       \<and> a_log (analyze_file parse a (file_path, Some content)) = a_log a @ [warning_for e file_path]
       \<and> warning_for e file_path \<in> set (a_log (analyze parse (before @ (file_path, Some content) # after)))
       \<and> fa_main parse (before @ (file_path, Some content) # after) = fa_main parse (before @ after)
       \<and> fl_endpoints (flask_analyze_file parse b (file_path, Some content)) = fl_endpoints b
       \<and> fl_schemas (flask_analyze_file parse b (file_path, Some content)) = fl_schemas b
       \<and> fl_blueprints (flask_analyze_file parse b (file_path, Some content)) = fl_blueprints b
       \<and> fl_log (flask_analyze_file parse b (file_path, Some content)) = fl_log b @ [warning_for e file_path]
       \<and> warning_for e file_path
            \<in> set (fl_log (flask_analyze parse (before @ (file_path, Some content) # after)))
       \<and> flask_main parse (before @ (file_path, Some content) # after) = flask_main parse (before @ after)"
proof -
  have v: "visit_file parse (file_path, Some content) = Inl e"
    using assms by (simp add: visit_file_def)
  have fv: "flask_visit_file parse (file_path, Some content) = Inl e"
    using assms by (simp add: flask_visit_file_def)
  note fa = analyze_skips_failed [OF v, of before after]
  note fl = flask_analyze_skips_failed [OF fv, of before after]
  show ?thesis
    using fa fl
    by (simp add: analyze_file_failed [OF v] flask_analyze_file_failed [OF fv] fa_main_def flask_main_def Let_def)
qed

lemma fa_main_items: "fa_main example_parse [(''app.py'', Some router_source)] = Inr items_document"
  by code_simp

lemma flask_main_items:
  "flask_main example_parse [(''app.py'', Some router_source)] = Inr empty_flask_document"
  by code_simp

lemma example_parse_broken: "example_parse ''def broken(:'' = Inl SyntaxError"
  by code_simp

text \<open>
  The theorem at the file \<^verbatim>\<open>def broken(:\<close>, analyzed after the module
  \<open>router_module\<close>: the run completes with the document of that module alone.
\<close>

theorem unparseable_file_contributes_nothing_witness:
  "example_parse ''def broken(:'' = Inl SyntaxError
   \<and> a_endpoints (analyze_file example_parse new_analyzer (''bad.py'', Some ''def broken(:'')) = []
   \<and> a_schemas (analyze_file example_parse new_analyzer (''bad.py'', Some ''def broken(:'')) = []
   \<and> a_log (analyze_file example_parse new_analyzer (''bad.py'', Some ''def broken(:''))
       = [CouldNotParse ''bad.py'']
   \<and> CouldNotParse ''bad.py''
       \<in> set (a_log (analyze example_parse
                  [(''app.py'', Some router_source), (''bad.py'', Some ''def broken(:'')]))
   \<and> fa_main example_parse [(''app.py'', Some router_source), (''bad.py'', Some ''def broken(:'')]
       = Inr items_document
   \<and> fl_endpoints (flask_analyze_file example_parse new_flask_analyzer
         (''bad.py'', Some ''def broken(:'')) = []
   \<and> fl_log (flask_analyze_file example_parse new_flask_analyzer
         (''bad.py'', Some ''def broken(:'')) = [CouldNotParse ''bad.py'']
   \<and> flask_main example_parse [(''app.py'', Some router_source), (''bad.py'', Some ''def broken(:'')]
       = Inr empty_flask_document"
  using unparseable_file_contributes_nothing
    [where parse = example_parse and content = "''def broken(:''" and e = SyntaxError
       and a = new_analyzer and file_path = "''bad.py''"
       and before = "[(''app.py'', Some router_source)]" and after = "[]"
       and b = new_flask_analyzer]
  by (simp add: fa_main_items flask_main_items example_parse_broken new_analyzer_def
        new_flask_analyzer_def warning_for_def)


section \<open>Routes without a literal path\<close>

lemma decorator_path_not_Constant: "\<not> is_Constant x \<Longrightarrow> decorator_path (x # as) = CStr ''/''"
  by (cases x) (simp_all add: decorator_path_def)

lemma decorator_path_no_literal: "no_literal_path as \<Longrightarrow> decorator_path as = CStr ''/''"
  by (cases as) (simp_all add: no_literal_path_def decorator_path_not_Constant, simp add: decorator_path_def)



lemma method_endpoints_all:
  "method_endpoints mk ms = Inr es \<Longrightarrow>
     length es = length ms \<and> list_all (\<lambda>e. \<exists>m. e = mk m) es"
proof (induction ms arbitrary: es)
  case Nil
  then show ?case by simp
next
  case (Cons m ms)
  then show ?case by (auto split: pyconst.splits sum.splits)
qed

lemma flask_visit_FunctionDef_endpoints:
  assumes "flask_visit_FunctionDef w fd body = Inr w'"
    and "flask_get_route_decorator (fd_decorator_list fd) = Some (f, as, kws, ln)"
  shows "\<exists>es. fv_endpoints w' = fv_endpoints w @ es \<and> es \<noteq> []
           \<and> list_all (\<lambda>e. fe_path e = decorator_path as) es"
proof -
  define methods where
    "methods = (if keyword_methods [CStr ''GET''] kws = [] then [CStr ''GET'']
                else keyword_methods [CStr ''GET''] kws)"
  have ne: "methods \<noteq> []" by (simp add: methods_def)
  from assms obtain mk es where
    es: "method_endpoints mk methods = Inr es" "fv_endpoints w' = fv_endpoints w @ es"
    and mk: "\<And>m. fe_path (mk m) = decorator_path as"
    by (auto simp: flask_visit_FunctionDef_def flask_parse_route_decorator_def Let_def
          methods_def split: sum.splits)
  from method_endpoints_all [OF es(1)] ne mk
  have "es \<noteq> []" "list_all (\<lambda>e. fe_path e = decorator_path as) es"
    by (auto simp: list_all_iff)
  with es(2) show ?thesis by blast
qed





lemma visit_root:
  "visit_FunctionDef (new_visitor ''app.py'' []) (route_function ''root'' ''get'' [Constant (CStr ''/'')])
     = Inr ((new_visitor ''app.py'' [])\<lparr>v_endpoints := [root_endpoint]\<rparr>)"
  by code_simp

lemma flask_visit_root:
  "flask_visit_FunctionDef (new_flask_visitor ''app.py'')
     (route_function ''root'' ''route'' [Constant (CStr ''/'')]) [OtherStmt []]
     = Inr ((new_flask_visitor ''app.py'')\<lparr>fv_endpoints := [flask_root_endpoint]\<rparr>)"
  by code_simp

lemma visit_dynamic:
  "visit_FunctionDef ((new_visitor ''app.py'' [])\<lparr>v_endpoints := [root_endpoint]\<rparr>)
     (route_function ''dynamic'' ''get'' [Name ''ITEMS_PATH''])
     = Inr ((new_visitor ''app.py'' [])
          \<lparr>v_endpoints := [root_endpoint, root_endpoint\<lparr>ep_function := ''dynamic''\<rparr>]\<rparr>)"
  by code_simp

lemma flask_visit_dynamic:
  "flask_visit_FunctionDef ((new_flask_visitor ''app.py'')\<lparr>fv_endpoints := [flask_root_endpoint]\<rparr>)
     (route_function ''dynamic'' ''route'' [Name ''ITEMS_PATH'']) [OtherStmt []]
     = Inr ((new_flask_visitor ''app.py'')
          \<lparr>fv_endpoints := [flask_root_endpoint,
             flask_root_endpoint\<lparr>fe_function := ''dynamic'', fe_summary := ''Dynamic''\<rparr>]\<rparr>)"
  by code_simp

lemma route_function_decorator:
  "get_route_decorator (fd_decorator_list (route_function n ''get'' as))
     = Some (Attribute (Name ''app'') ''get'', as, [], 1)"
  by (simp add: route_function_def http_verbs_def)

lemma flask_route_function_decorator:
  "flask_get_route_decorator (fd_decorator_list (route_function n ''route'' as))
     = Some (Attribute (Name ''app'') ''route'', as, [], 1)"
  by (simp add: route_function_def)





section \<open>The default path in the document\<close>

lemma get_route_decorator_func:
  "get_route_decorator ds = Some (f, as, kws, ln) \<Longrightarrow>
     (\<exists>v a. f = Attribute v a \<and> a \<in> set http_verbs) \<or> (\<exists>i. f = Name i \<and> i \<in> set http_verbs)"
  by (induction ds) (auto split: expr.splits if_splits)

lemma parse_route_decorator_method:
  "(\<exists>v a. f = Attribute v a) \<or> (\<exists>i. f = Name i) \<Longrightarrow>
     \<exists>m. fst (parse_route_decorator src (f, as, kws, ln)) = Some m"
  by (auto simp: parse_route_decorator_def Let_def split: prod.splits)

lemma last_entry_snoc: "last_entry (ents @ [(p, m, op)]) p m = Some op"
  by (simp add: last_entry_def)

lemma find_Some_mem: "find P xs = Some x \<Longrightarrow> x \<in> set xs \<and> P x"
  by (induction xs) (auto split: if_splits)

lemma last_entry_append_mem:
  assumes "(p, m, op) \<in> set ys"
  shows "\<exists>op'. (p, m, op') \<in> set ys \<and> last_entry (xs @ ys) p m = Some op'"
proof -
  let ?P = "\<lambda>(p', m', op). p' = p \<and> m' = m"
  from assms have "find ?P (rev ys) \<noteq> None"
    by (auto simp: find_None_iff)
  then obtain x where x: "find ?P (rev ys) = Some x" by blast
  then have "x \<in> set ys" "?P x"
    using find_Some_mem [of ?P "rev ys" x] by simp_all
  then obtain op' where "x = (p, m, op')" by (cases x) auto
  with x \<open>x \<in> set ys\<close> show ?thesis
    by (auto simp: last_entry_def find_append)
qed

lemma map_filter_append: "List.map_filter f (xs @ ys) = List.map_filter f xs @ List.map_filter f ys"
  by (simp add: List.map_filter_def)

lemma map_filter_mem: "x \<in> set xs \<Longrightarrow> f x = Some y \<Longrightarrow> y \<in> set (List.map_filter f xs)"
  by (force simp: List.map_filter_def image_iff)

lemma fa_generate_openapi_lookup:
  "fa_generate_openapi i eps sch = Inr doc \<Longrightarrow>
     path_lookup (doc_paths doc) p m = last_entry (List.map_filter fa_entry eps) p m"
proof -
  assume "fa_generate_openapi i eps sch = Inr doc"
  then have "fa_paths [] eps = Inr (doc_paths doc)"
    by (auto simp: fa_generate_openapi_def split: sum.splits)
  from fa_paths_entries [OF this] show ?thesis
    by (simp add: path_lookup_set_operations path_lookup_Nil split: option.splits)
qed

lemma flask_generate_openapi_lookup:
  "flask_generate_openapi i eps sch = Inr doc \<Longrightarrow>
     path_lookup (doc_paths doc) p m = last_entry (List.map_filter flask_entry eps) p m"
proof -
  assume "flask_generate_openapi i eps sch = Inr doc"
  then have "flask_paths [] eps = Inr (doc_paths doc)"
    by (auto simp: flask_generate_openapi_def split: sum.splits)
  from flask_paths_entries [OF this] show ?thesis
    by (simp add: path_lookup_set_operations path_lookup_Nil split: option.splits)
qed

text \<open>
  C10, as amended. For a recognized route decorator with no positional argument,
  or with a first positional argument that is not a constant, whenever the
  visit of the function completes the endpoint appended has the path \<open>/\<close>, and
  in every document generated from the visitor's endpoints it lies under the
  path \<open>/\<close>: for FastAPI the entry of \<open>/\<close> and the lower-case method is the
  operation of this endpoint, whatever was declared for that slot before; for
  Flask the entry of \<open>/\<close> and each method of the route is the operation of one
  of the route's own endpoints.
\<close>

theorem default_path_takes_root_slot:
  assumes "no_literal_path as"
  shows "(get_route_decorator (fd_decorator_list fd) = Some (f, as, kws, ln)
            \<and> visit_FunctionDef v fd = Inr v'
          \<longrightarrow> (\<exists>ep m. v_endpoints v' = v_endpoints v @ [ep] \<and> ep_path ep = CStr ''/''
                 \<and> ep_method ep = Some m
                 \<and> (\<forall>i sch doc. fa_generate_openapi i (v_endpoints v') sch = Inr doc
                      \<longrightarrow> path_lookup (doc_paths doc) ''/'' (lower m)
                            = Some (fa_operation m ''/'' ep))))
       \<and> (flask_get_route_decorator (fd_decorator_list gd) = Some (g, as, kws, ln)
            \<and> flask_visit_FunctionDef w gd body = Inr w'
          \<longrightarrow> (\<exists>es. fv_endpoints w' = fv_endpoints w @ es \<and> es \<noteq> []
                 \<and> list_all (\<lambda>e. fe_path e = CStr ''/'') es
                 \<and> (\<forall>i sch doc. flask_generate_openapi i (fv_endpoints w') sch = Inr doc
                      \<longrightarrow> list_all
                            (\<lambda>e. list_ex
                                   (\<lambda>e'. path_lookup (doc_paths doc) ''/'' (lower (fe_method e))
                                           = Some (flask_operation ''/'' e'))
                                   es)
                            es)))"
proof (intro conjI impI)
  assume "get_route_decorator (fd_decorator_list fd) = Some (f, as, kws, ln)
            \<and> visit_FunctionDef v fd = Inr v'"
  then have h: "visit_FunctionDef v fd = Inr v'"
    "get_route_decorator (fd_decorator_list fd) = Some (f, as, kws, ln)" by simp_all
  from visit_FunctionDef_endpoint [OF h] obtain ep where
    ep: "v_endpoints v' = v_endpoints v @ [ep]" "ep_path ep = decorator_path as"
        "ep_method ep = fst (parse_route_decorator (v_content v) (f, as, kws, ln))"
    by blast
  from get_route_decorator_func [OF h(2)] parse_route_decorator_method [of f "v_content v" as kws ln]
  obtain m where m: "ep_method ep = Some m" using ep(3) by auto
  have p: "ep_path ep = CStr ''/''"
    using ep(2) assms by (simp add: decorator_path_no_literal)
  have entry: "fa_entry ep = Some (''/'', lower m, fa_operation m ''/'' ep)"
    by (simp add: fa_entry_def p m)
  have "path_lookup (doc_paths doc) ''/'' (lower m) = Some (fa_operation m ''/'' ep)"
    if "fa_generate_openapi i (v_endpoints v') sch = Inr doc" for i sch doc
    using fa_generate_openapi_lookup [OF that, of "''/''" "lower m"]
    by (simp add: ep(1) map_filter_append entry last_entry_snoc)
  with ep(1) p m
  show "\<exists>ep m. v_endpoints v' = v_endpoints v @ [ep] \<and> ep_path ep = CStr ''/''
          \<and> ep_method ep = Some m
          \<and> (\<forall>i sch doc. fa_generate_openapi i (v_endpoints v') sch = Inr doc
                \<longrightarrow> path_lookup (doc_paths doc) ''/'' (lower m) = Some (fa_operation m ''/'' ep))"
    by blast
next
  assume "flask_get_route_decorator (fd_decorator_list gd) = Some (g, as, kws, ln)
            \<and> flask_visit_FunctionDef w gd body = Inr w'"
  then have h: "flask_visit_FunctionDef w gd body = Inr w'"
    "flask_get_route_decorator (fd_decorator_list gd) = Some (g, as, kws, ln)" by simp_all
  from flask_visit_FunctionDef_endpoints [OF h] assms obtain es where
    es: "fv_endpoints w' = fv_endpoints w @ es" "es \<noteq> []"
        "list_all (\<lambda>e. fe_path e = CStr ''/'') es"
    by (auto simp: decorator_path_no_literal)
  have "list_all (\<lambda>e. list_ex (\<lambda>e'. path_lookup (doc_paths doc) ''/'' (lower (fe_method e))
                                      = Some (flask_operation ''/'' e')) es) es"
    if gen: "flask_generate_openapi i (fv_endpoints w') sch = Inr doc" for i sch doc
  proof -
    have entry: "flask_entry e = Some (''/'', lower (fe_method e), flask_operation ''/'' e)"
      if "e \<in> set es" for e
    proof -
      from es(3) that have "fe_path e = CStr ''/''" by (simp add: list_all_iff)
      then show ?thesis by (simp add: flask_entry_def)
    qed
    have "\<exists>e' \<in> set es. path_lookup (doc_paths doc) ''/'' (lower (fe_method e))
                            = Some (flask_operation ''/'' e')"
      if "e \<in> set es" for e
    proof -
      from that entry [OF that]
      have "(''/'', lower (fe_method e), flask_operation ''/'' e)
              \<in> set (List.map_filter flask_entry es)"
        by (intro map_filter_mem [of e]) simp_all
      from last_entry_append_mem [OF this, of "List.map_filter flask_entry (fv_endpoints w)"]
      obtain op' where
        op': "(''/'', lower (fe_method e), op') \<in> set (List.map_filter flask_entry es)"
          "last_entry (List.map_filter flask_entry (fv_endpoints w) @ List.map_filter flask_entry es)
             ''/'' (lower (fe_method e)) = Some op'"
        by blast
      from op'(1) obtain e' where e': "e' \<in> set es"
        "flask_entry e' = Some (''/'', lower (fe_method e), op')"
        by (auto simp: List.map_filter_def)
      with entry [OF e'(1)] have "op' = flask_operation ''/'' e'" by simp
      with op'(2) e'(1) flask_generate_openapi_lookup [OF gen, of "''/''" "lower (fe_method e)"]
      show ?thesis by (auto simp: es(1) map_filter_append)
    qed
    then show ?thesis by (simp add: list_all_iff list_ex_iff)
  qed
  with es
  show "\<exists>es. fv_endpoints w' = fv_endpoints w @ es \<and> es \<noteq> []
          \<and> list_all (\<lambda>e. fe_path e = CStr ''/'') es
          \<and> (\<forall>i sch doc. flask_generate_openapi i (fv_endpoints w') sch = Inr doc
                \<longrightarrow> list_all
                      (\<lambda>e. list_ex
                             (\<lambda>e'. path_lookup (doc_paths doc) ''/'' (lower (fe_method e))
                                     = Some (flask_operation ''/'' e'))
                             es)
                      es)"
    by blast
qed

text \<open>
  C10 as stated fails for a first argument that is a constant but not a string:
  \<open>@app.get(42)\<close> gives an endpoint whose path is the number 42, on which
  \<open>generate_openapi\<close> raises, and \<open>@app.route(None)\<close> one whose path is \<open>None\<close>.
  And no endpoint is emitted where the visit raises: for FastAPI, for every
  route inside a class.
\<close>

theorem constant_path_kept:
  "map_sum id (\<lambda>v. map ep_path (v_endpoints v))
     (visit_body (new_visitor ''app.py'' [])
        [FunctionDef (route_function ''numbered'' ''get'' [Constant (CInt 42)]) [OtherStmt []]])
     = Inr [CInt 42]
   \<and> map_sum id (\<lambda>v. fa_generate_openapi None (v_endpoints v) (v_schemas v))
     (visit_body (new_visitor ''app.py'' [])
        [FunctionDef (route_function ''numbered'' ''get'' [Constant (CInt 42)]) [OtherStmt []]])
     = Inr (Inl AttributeError)
   \<and> map_sum id (\<lambda>v. map fe_path (fv_endpoints v))
     (flask_visit_body (new_flask_visitor ''app.py'')
        [FunctionDef (route_function ''unnamed'' ''route'' [Constant CNone]) [OtherStmt []]])
     = Inr [CNone]
   \<and> visit_body (new_visitor ''app.py'' [])
        [ClassDef ''Api'' []
           [FunctionDef (route_function ''dynamic'' ''get'' [Name ''ITEMS_PATH'']) [OtherStmt []]]]
     = Inl AttributeError"
  by code_simp

lemma fa_generate_root_dynamic:
  "fa_generate_openapi None [root_endpoint, root_endpoint\<lparr>ep_function := ''dynamic''\<rparr>] [] =
     Inr \<lparr>openapi = ''3.0.0'', doc_info = fa_default_info,
          doc_paths =
            [(''/'', [(''get'', fa_operation ''GET'' ''/'' (root_endpoint\<lparr>ep_function := ''dynamic''\<rparr>))])],
          components_schemas = []\<rparr>"
  by (simp add: fa_generate_openapi_def fa_add_endpoint_def set_operation_def dict_get_def
        root_endpoint_def lower_GET)

lemma flask_generate_root_dynamic:
  "flask_generate_openapi None
     [flask_root_endpoint, flask_root_endpoint\<lparr>fe_function := ''dynamic'', fe_summary := ''Dynamic''\<rparr>] []
   = Inr \<lparr>openapi = ''3.0.0'', doc_info = flask_default_info,
          doc_paths =
            [(''/'', [(''get'', flask_operation ''/''
                 (flask_root_endpoint\<lparr>fe_function := ''dynamic'', fe_summary := ''Dynamic''\<rparr>))])],
          components_schemas = []\<rparr>"
  by (simp add: flask_generate_openapi_def flask_add_endpoint_def set_operation_def dict_get_def
        flask_root_endpoint_def lower_GET)

text \<open>
  The theorem at \<open>@app.get(ITEMS_PATH)\<close> and \<open>@app.route(ITEMS_PATH)\<close>, visited after
  the declared root route: the document has one entry under \<open>/\<close> and \<open>get\<close>.
\<close>

theorem default_path_takes_root_slot_witness:
  "no_literal_path [Name ''ITEMS_PATH'']
   \<and> visit_FunctionDef ((new_visitor ''app.py'' [])\<lparr>v_endpoints := [root_endpoint]\<rparr>)
        (route_function ''dynamic'' ''get'' [Name ''ITEMS_PATH''])
      = Inr ((new_visitor ''app.py'' [])
          \<lparr>v_endpoints := [root_endpoint, root_endpoint\<lparr>ep_function := ''dynamic''\<rparr>]\<rparr>)
   \<and> path_lookup
        [(''/'', [(''get'', fa_operation ''GET'' ''/'' (root_endpoint\<lparr>ep_function := ''dynamic''\<rparr>))])]
        ''/'' ''get''
      = Some (fa_operation ''GET'' ''/'' (root_endpoint\<lparr>ep_function := ''dynamic''\<rparr>))
   \<and> flask_visit_FunctionDef ((new_flask_visitor ''app.py'')\<lparr>fv_endpoints := [flask_root_endpoint]\<rparr>)
        (route_function ''dynamic'' ''route'' [Name ''ITEMS_PATH'']) [OtherStmt []]
      = Inr ((new_flask_visitor ''app.py'')
          \<lparr>fv_endpoints := [flask_root_endpoint,
             flask_root_endpoint\<lparr>fe_function := ''dynamic'', fe_summary := ''Dynamic''\<rparr>]\<rparr>)
   \<and> path_lookup
        [(''/'', [(''get'', flask_operation ''/''
             (flask_root_endpoint\<lparr>fe_function := ''dynamic'', fe_summary := ''Dynamic''\<rparr>))])]
        ''/'' ''get''
      = Some (flask_operation ''/''
             (flask_root_endpoint\<lparr>fe_function := ''dynamic'', fe_summary := ''Dynamic''\<rparr>))"
proof -
  let ?dyn = "root_endpoint\<lparr>ep_function := ''dynamic''\<rparr>"
  let ?fdyn = "flask_root_endpoint\<lparr>fe_function := ''dynamic'', fe_summary := ''Dynamic''\<rparr>"
  have nl: "no_literal_path [Name ''ITEMS_PATH'']"
    by (simp add: no_literal_path_def)
  note inst = default_path_takes_root_slot
    [OF nl, where f = "Attribute (Name ''app'') ''get''" and kws = "[]" and ln = 1
       and fd = "route_function ''dynamic'' ''get'' [Name ''ITEMS_PATH'']"
       and v = "(new_visitor ''app.py'' [])\<lparr>v_endpoints := [root_endpoint]\<rparr>"
       and v' = "(new_visitor ''app.py'' [])\<lparr>v_endpoints := [root_endpoint, ?dyn]\<rparr>"
       and g = "Attribute (Name ''app'') ''route''"
       and gd = "route_function ''dynamic'' ''route'' [Name ''ITEMS_PATH'']"
       and w = "(new_flask_visitor ''app.py'')\<lparr>fv_endpoints := [flask_root_endpoint]\<rparr>"
       and body = "[OtherStmt []]"
       and w' = "(new_flask_visitor ''app.py'')\<lparr>fv_endpoints := [flask_root_endpoint, ?fdyn]\<rparr>"]
  have "\<exists>ep m. [root_endpoint, ?dyn] = [root_endpoint] @ [ep] \<and> ep_path ep = CStr ''/''
           \<and> ep_method ep = Some m
           \<and> (\<forall>i sch doc. fa_generate_openapi i [root_endpoint, ?dyn] sch = Inr doc
                 \<longrightarrow> path_lookup (doc_paths doc) ''/'' (lower m) = Some (fa_operation m ''/'' ep))"
    using inst [THEN conjunct1] route_function_decorator [of "''dynamic''" "[Name ''ITEMS_PATH'']"]
      visit_dynamic
    by (simp add: new_visitor_def)
  then obtain ep m where
    ep: "[root_endpoint, ?dyn] = [root_endpoint] @ [ep]" "ep_method ep = Some m"
    and doc: "\<And>i sch doc. fa_generate_openapi i [root_endpoint, ?dyn] sch = Inr doc
               \<Longrightarrow> path_lookup (doc_paths doc) ''/'' (lower m) = Some (fa_operation m ''/'' ep)"
    by blast
  from ep have e: "ep = ?dyn" "m = ''GET''"
    by (auto simp: root_endpoint_def)
  have "\<exists>es. [flask_root_endpoint, ?fdyn] = [flask_root_endpoint] @ es \<and> es \<noteq> []
           \<and> list_all (\<lambda>e. fe_path e = CStr ''/'') es
           \<and> (\<forall>i sch doc. flask_generate_openapi i [flask_root_endpoint, ?fdyn] sch = Inr doc
                 \<longrightarrow> list_all
                       (\<lambda>e. list_ex
                              (\<lambda>e'. path_lookup (doc_paths doc) ''/'' (lower (fe_method e))
                                      = Some (flask_operation ''/'' e'))
                              es)
                       es)"
    using inst [THEN conjunct2]
      flask_route_function_decorator [of "''dynamic''" "[Name ''ITEMS_PATH'']"] flask_visit_dynamic
    by (simp add: new_flask_visitor_def)
  then obtain es where
    es: "[flask_root_endpoint, ?fdyn] = [flask_root_endpoint] @ es"
    and fdoc: "\<And>i sch doc. flask_generate_openapi i [flask_root_endpoint, ?fdyn] sch = Inr doc
               \<Longrightarrow> list_all
                     (\<lambda>e. list_ex
                            (\<lambda>e'. path_lookup (doc_paths doc) ''/'' (lower (fe_method e))
                                    = Some (flask_operation ''/'' e'))
                            es)
                     es"
    by blast
  from es have es': "es = [?fdyn]" by simp
  from doc [OF fa_generate_root_dynamic]
  have c3: "path_lookup [(''/'', [(''get'', fa_operation ''GET'' ''/'' ?dyn)])] ''/'' ''get''
              = Some (fa_operation ''GET'' ''/'' ?dyn)"
    by (simp add: e lower_GET)
  from fdoc [OF flask_generate_root_dynamic]
  have c5: "path_lookup [(''/'', [(''get'', flask_operation ''/'' ?fdyn)])] ''/'' ''get''
              = Some (flask_operation ''/'' ?fdyn)"
    by (simp add: es' flask_root_endpoint_def lower_GET)
  show ?thesis
    by (intro conjI) (rule nl visit_dynamic c3 flask_visit_dynamic c5)+
qed

end
